theory Spec2Isabelle
  imports Complex_Main
begin

section \<open>The Strava synchroniser and statistics engine\<close>

text \<open>
  A shallow embedding of the sync script: the record minimiser, the cache merge, the
  detail backfill, the next sync point, the statistics engine and the control flow of
  \<open>main\<close>.

  Conventions of the embedding.
  \<^item> A JavaScript number is a \<open>rat\<close>, and a numeric field holds the decimal written
    in the JSON file. The personal records round as the script does: \<open>dbl\<close> is the
    rounding to the nearest IEEE double (a tie going to the even significand), applied
    where a field is read, where \<open>parseInt\<close> reads an integer, and after each arithmetic
    operation of that code, so that comparisons, \<open>Math.round\<close> and \<open>toFixed\<close> see the
    double the script sees. Infinities and \<open>NaN\<close> are outside the model, and a printed
    count of minutes is below \<open>2^53\<close>. The running and cycling totals are
    summed without rounding: the properties about them say which source each total is
    read from, and the scenario of the totals has integral values, which the script
    does not round either.
  \<^item> A property that may be \<open>undefined\<close> or \<open>null\<close> is an \<open>option\<close>; the two texts of
    the baseline's farthest run, which a template literal prints, tell the two apart.
  \<^item> A date string is represented by the instant \<open>new Date(s).getTime()\<close> denotes, in
    milliseconds; strings that \<open>Date\<close> cannot parse are outside the model.
  \<^item> The calendar getters of \<open>Date\<close> depend on the time zone of the process and are a
    parameter \<open>cal\<close> giving (full year, zero-based month, day of month).
  \<^item> A string is the list of the bytes of its UTF-8 encoding; white space is the
    \<open>WhiteSpace\<close> and \<open>LineTerminator\<close> code points of the language, in that encoding.
\<close>

subsection \<open>Numbers and strings\<close>

type_synonym num = rat

text \<open>\<open>Number(x) || 0\<close> for a numeric property that may be missing.\<close>

definition numOr0 :: "num option \<Rightarrow> num" where
  "numOr0 x = (case x of None \<Rightarrow> 0 | Some v \<Rightarrow> v)"

text \<open>\<open>x || d\<close> for a string property: the empty string is falsy.\<close>

definition strOr :: "string option \<Rightarrow> string option \<Rightarrow> string option" where
  "strOr x d = (case x of None \<Rightarrow> d | Some s \<Rightarrow> (if s = [] then d else Some s))"

text \<open>
  The rounding of a number to the nearest double: the significand has 53 bits, the least
  exponent of a unit in the last place is \<open>-1074\<close>, and a tie goes to the even significand.
  \<open>bits k\<close> is the length of the binary numeral of \<open>k\<close>, and \<open>ilog2 a\<close> the exponent \<open>e\<close>
  with \<open>2^e \<le> a < 2^(e+1)\<close> for a positive \<open>a\<close>.
\<close>

definition pow2 :: "int \<Rightarrow> rat" where
  "pow2 e = (if 0 \<le> e then 2 ^ nat e else 1 / 2 ^ nat (- e))"

function bits :: "int \<Rightarrow> nat" where
  "bits k = (if k \<le> 0 then 0 else Suc (bits (k div 2)))"
  by pat_completeness auto
termination
  by (relation "measure nat") auto

definition ilog2 :: "rat \<Rightarrow> int" where
  "ilog2 a = (if 1 \<le> a then int (bits \<lfloor>a\<rfloor>) - 1
              else - int (bits (\<lceil>1 / a\<rceil> - 1)))"

definition round_even :: "rat \<Rightarrow> int" where
  "round_even y =
     (let m = \<lfloor>y\<rfloor>; f = y - of_int m
      in if f < 1 / 2 then m else if 1 / 2 < f then m + 1
         else if m mod 2 = 0 then m else m + 1)"

definition dbl :: "num \<Rightarrow> num" where
  "dbl x =
     (if x = 0 then 0
      else let q = max (ilog2 \<bar>x\<bar> - 52) (- 1074); m = round_even (\<bar>x\<bar> / pow2 q)
           in sgn x * of_int m * pow2 q)"

text \<open>The double nearest to an integer, which is an integer.\<close>

definition dbl_int :: "int \<Rightarrow> int" where
  "dbl_int n = \<lfloor>dbl (of_int n)\<rfloor>"

text \<open>A value inside a template literal: \<open>undefined\<close> and \<open>null\<close> print as their names.\<close>

datatype jstext = Missing | JNull | Text string

definition tmpl :: "jstext \<Rightarrow> string" where
  "tmpl x = (case x of Missing \<Rightarrow> ''undefined'' | JNull \<Rightarrow> ''null'' | Text s \<Rightarrow> s)"

definition apos :: char where
  "apos = CHR 0x27"

definition is_digit :: "char \<Rightarrow> bool" where
  "is_digit c = (48 \<le> (of_char c :: nat) \<and> (of_char c :: nat) \<le> 57)"

text \<open>
  White space, as \<open>trim\<close> and \<open>parseInt\<close> skip it: the code points U+0009 to U+000D,
  U+0020, U+00A0, U+1680, U+2000 to U+200A, U+2028, U+2029, U+202F, U+205F, U+3000 and
  U+FEFF. \<open>ws_len s\<close> is the number of bytes of the white-space character \<open>s\<close> starts with,
  and 0 when it starts with none.
\<close>

definition ws3 :: "nat \<Rightarrow> nat list \<Rightarrow> bool" where
  "ws3 b r =
     (length r = 2 \<and>
      (b = 0xE1 \<and> r ! 0 = 0x9A \<and> r ! 1 = 0x80 \<or>
       b = 0xE2 \<and> r ! 0 = 0x80 \<and>
         (0x80 \<le> r ! 1 \<and> r ! 1 \<le> 0x8A \<or> r ! 1 = 0xA8 \<or> r ! 1 = 0xA9 \<or> r ! 1 = 0xAF) \<or>
       b = 0xE2 \<and> r ! 0 = 0x81 \<and> r ! 1 = 0x9F \<or>
       b = 0xE3 \<and> r ! 0 = 0x80 \<and> r ! 1 = 0x80 \<or>
       b = 0xEF \<and> r ! 0 = 0xBB \<and> r ! 1 = 0xBF))"

fun ws_len :: "string \<Rightarrow> nat" where
  "ws_len [] = 0"
| "ws_len (c # cs) =
     (let b = (of_char c :: nat)
      in if b = 32 \<or> (9 \<le> b \<and> b \<le> 13) then 1
         else if b = 0xC2 \<and> map of_char (take 1 cs) = [0xA0 :: nat] then 2
         else if ws3 b (map of_char (take 2 cs)) then 3
         else 0)"

function skip_ws :: "string \<Rightarrow> string" where
  "skip_ws s = (if ws_len s = 0 then s else skip_ws (drop (ws_len s) s))"
  by pat_completeness auto
termination
proof (relation "measure length")
  show "wf (measure length)"
    by simp
next
  fix s :: string
  assume w: "ws_len s \<noteq> 0"
  then have "s \<noteq> []"
    by auto
  with w show "(drop (ws_len s) s, s) \<in> measure length"
    by simp
qed

fun trim_end :: "string \<Rightarrow> string" where
  "trim_end [] = []"
| "trim_end (c # cs) = (if skip_ws (c # cs) = [] then [] else c # trim_end cs)"

definition digit_char :: "nat \<Rightarrow> char" where
  "digit_char d = ''0123456789'' ! (d mod 10)"

fun show_nat :: "nat \<Rightarrow> string" where
  "show_nat n = (if n < 10 then [digit_char n] else show_nat (n div 10) @ [digit_char (n mod 10)])"

fun digits_val :: "nat \<Rightarrow> string \<Rightarrow> nat" where
  "digits_val acc [] = acc"
| "digits_val acc (c # cs) = digits_val (acc * 10 + ((of_char c :: nat) - 48)) cs"

definition clamp :: "num \<Rightarrow> num \<Rightarrow> num \<Rightarrow> num" where
  "clamp n lo hi = max lo (min hi n)"

definition pad2 :: "nat \<Rightarrow> string" where
  "pad2 n = (if n < 10 then CHR ''0'' # show_nat n else show_nat n)"

text \<open>\<open>Math.round\<close>: the nearest integer, a tie going up.\<close>

definition round_js :: "num \<Rightarrow> int" where
  "round_js x = \<lfloor>x + 1 / 2\<rfloor>"

text \<open>
  \<open>Number.prototype.toFixed\<close> below \<open>1e21\<close>: the sign, then the nearest multiple of
  \<open>10^-digits\<close> to the absolute value (a tie going up), printed with exactly \<open>digits\<close>
  decimals.
\<close>

fun pad_left :: "nat \<Rightarrow> string \<Rightarrow> string" where
  "pad_left w s = (if length s < w then replicate (w - length s) (CHR ''0'') @ s else s)"

definition toFixed :: "num \<Rightarrow> nat \<Rightarrow> string" where
  "toFixed x digits =
     (let n = nat \<lfloor>\<bar>x\<bar> * 10 ^ digits + 1 / 2\<rfloor>;
          whole = show_nat (n div 10 ^ digits);
          body = (if digits = 0 then whole
                  else whole @ ''.'' @ pad_left digits (show_nat (n mod 10 ^ digits)))
      in if x < 0 then CHR ''-'' # body else body)"

text \<open>The two replacements of \<open>toFixedTrim\<close>: \<open>/\.0+$/\<close>, then \<open>/(\.\d*?)0+$/\<close>.\<close>

definition all_zeros :: "string \<Rightarrow> bool" where
  "all_zeros t = (t \<noteq> [] \<and> list_all (\<lambda>c. c = CHR ''0'') t)"

fun strip_dot_zeros :: "string \<Rightarrow> string" where
  "strip_dot_zeros [] = []"
| "strip_dot_zeros (c # cs) =
     (if c = CHR ''.'' \<and> all_zeros cs then [] else c # strip_dot_zeros cs)"

fun lazy_digits :: "string \<Rightarrow> string option" where
  "lazy_digits [] = None"
| "lazy_digits (c # cs) =
     (if all_zeros (c # cs) then Some []
      else if is_digit c then map_option (Cons c) (lazy_digits cs)
      else None)"

fun strip_trailing_zeros :: "string \<Rightarrow> string" where
  "strip_trailing_zeros [] = []"
| "strip_trailing_zeros (c # cs) =
     (if c = CHR ''.'' then
        (case lazy_digits cs of
           Some kept \<Rightarrow> c # kept
         | None \<Rightarrow> c # strip_trailing_zeros cs)
      else c # strip_trailing_zeros cs)"

definition toFixedTrim :: "num \<Rightarrow> nat \<Rightarrow> string" where
  "toFixedTrim n digits = strip_trailing_zeros (strip_dot_zeros (toFixed n digits))"

definition formatPaceSecPerKm :: "num \<Rightarrow> string option" where
  "formatPaceSecPerKm secPerKm =
     (if secPerKm \<le> 0 then None
      else let total = nat (round_js secPerKm); m = total div 60; s = total mod 60
           in Some (show_nat m @ [apos] @ pad2 s @ [apos, apos] @ ''/km''))"

definition formatTimeMinTextFromSec :: "num \<Rightarrow> string option" where
  "formatTimeMinTextFromSec sec =
     (if sec \<le> 0 then None
      else let total = nat (round_js sec); m = total div 60; s = total mod 60
           in Some (show_nat m @ '':'' @ pad2 s))"

text \<open>\<open>parseInt(x, 10)\<close>: white space, a sign, then the longest run of digits, read as a
  double; \<open>NaN\<close> (here \<open>None\<close>) when there is no digit.\<close>

definition parseInt :: "string \<Rightarrow> int option" where
  "parseInt x =
     (let s1 = skip_ws x;
          neg = (s1 \<noteq> [] \<and> hd s1 = CHR ''-'');
          s2 = (if s1 \<noteq> [] \<and> (hd s1 = CHR ''-'' \<or> hd s1 = CHR ''+'') then tl s1 else s1);
          ds = takeWhile is_digit s2
      in if ds = [] then None
         else Some (dbl_int (if neg then - int (digits_val 0 ds) else int (digits_val 0 ds))))"

definition trim :: "string \<Rightarrow> string" where
  "trim s = trim_end (skip_ws s)"

fun split_on :: "char \<Rightarrow> string \<Rightarrow> string list" where
  "split_on sep [] = [[]]"
| "split_on sep (c # cs) =
     (if c = sep then [] # split_on sep cs
      else (case split_on sep cs of
              [] \<Rightarrow> [[c]]
            | p # ps \<Rightarrow> (c # p) # ps))"

text \<open>The destructuring \<open>const [mm, ss] = t.split(sep).map(parseInt)\<close> and the test that
  both are finite.\<close>

definition minSecOf :: "char \<Rightarrow> string \<Rightarrow> int option" where
  "minSecOf sep t =
     (case map parseInt (split_on sep t) of
        Some mm # Some ss # rest \<Rightarrow> Some (dbl_int (dbl_int (mm * 60) + ss))
      | _ \<Rightarrow> None)"

definition parseBaselineTimeToSec :: "string option \<Rightarrow> int option" where
  "parseBaselineTimeToSec timeText =
     (case timeText of
        None \<Rightarrow> None
      | Some txt \<Rightarrow>
          (let t = trim txt in
           if t = [] then None
           else if CHR '':'' \<in> set t then minSecOf (CHR '':'') t
           else if CHR ''.'' \<in> set t then minSecOf (CHR ''.'') t
           else map_option (\<lambda>mm. dbl_int (mm * 60)) (parseInt t)))"

text \<open>
  \<open>paceText.match(/(\d+)'(\d+)''/)\<close>: the leftmost place where a run of digits, an
  apostrophe, a run of digits and two apostrophes follow one another. Both runs are
  greedy, and the character after each is not a digit, so each run is the longest one.
\<close>

definition pace_match_here :: "string \<Rightarrow> (string \<times> string) option" where
  "pace_match_here s =
     (let m = takeWhile is_digit s; r1 = dropWhile is_digit s in
      if m = [] \<or> r1 = [] \<or> hd r1 \<noteq> apos then None
      else let sec = takeWhile is_digit (tl r1); r2 = dropWhile is_digit (tl r1) in
           if sec = [] \<or> take 2 r2 \<noteq> [apos, apos] then None
           else Some (m, sec))"

fun pace_match :: "string \<Rightarrow> (string \<times> string) option" where
  "pace_match [] = None"
| "pace_match (c # cs) =
     (case pace_match_here (c # cs) of
        Some r \<Rightarrow> Some r
      | None \<Rightarrow> pace_match cs)"

definition parsePaceToSeconds :: "string option \<Rightarrow> nat" where
  "parsePaceToSeconds paceText =
     (case paceText of
        None \<Rightarrow> 0
      | Some txt \<Rightarrow>
          (case pace_match txt of
             None \<Rightarrow> 0
           | Some (m, s) \<Rightarrow> digits_val 0 m * 60 + digits_val 0 s))"

subsection \<open>Activities\<close>

text \<open>A raw activity, as the list and detail endpoints return it (the fields the script reads).\<close>

record raw_activity =
  raw_id :: "nat option"
  raw_sport_type :: "string option"
  raw_type :: "string option"
  raw_name :: "string option"
  raw_start_date :: "int option"
  raw_start_date_local :: "int option"
  raw_distance :: "num option"
  raw_moving_time :: "num option"
  raw_elapsed_time :: "num option"
  raw_total_elevation_gain :: "num option"
  raw_calories :: "num option"
  raw_kilojoules :: "num option"
  raw_average_speed :: "num option"
  raw_max_speed :: "num option"
  raw_average_temp :: "num option"
  raw_average_watts :: "num option"
  raw_has_heartrate :: "bool option"
  raw_average_heartrate :: "num option"
  raw_max_heartrate :: "num option"
  raw_device_name :: "string option"
  raw_trainer :: "bool option"
  raw_commute :: "bool option"
  raw_detail_attempted :: "bool option"

text \<open>The stored record. The field \<open>id\<close> of the script is \<open>aid\<close> here.\<close>

record activity =
  aid :: "nat option"
  sport_type :: "string option"
  name :: "string option"
  start_date :: "int option"
  start_date_local :: "int option"
  distance_m :: "num option"
  moving_time_s :: "num option"
  elapsed_time_s :: "num option"
  total_elevation_gain_m :: "num option"
  calories_kcal :: "num option"
  kilojoules_kj :: "num option"
  average_speed_mps :: "num option"
  max_speed_mps :: "num option"
  average_temp_c :: "num option"
  average_watts :: "num option"
  has_heartrate :: "bool option"
  average_heartrate :: "num option"
  max_heartrate :: "num option"
  device_name :: "string option"
  trainer :: "bool option"
  commute :: "bool option"
  detail_attempted :: bool

definition minimizeActivity :: "raw_activity \<Rightarrow> activity" where
  "minimizeActivity a =
     \<lparr> aid = raw_id a,
       sport_type = strOr (raw_sport_type a) (raw_type a),
       name = raw_name a,
       start_date = raw_start_date a,
       start_date_local = raw_start_date_local a,
       distance_m = raw_distance a,
       moving_time_s = raw_moving_time a,
       elapsed_time_s = raw_elapsed_time a,
       total_elevation_gain_m = raw_total_elevation_gain a,
       calories_kcal = raw_calories a,
       kilojoules_kj = raw_kilojoules a,
       average_speed_mps = raw_average_speed a,
       max_speed_mps = raw_max_speed a,
       average_temp_c = raw_average_temp a,
       average_watts = raw_average_watts a,
       has_heartrate = raw_has_heartrate a,
       average_heartrate = raw_average_heartrate a,
       max_heartrate = raw_max_heartrate a,
       device_name = raw_device_name a,
       trainer = raw_trainer a,
       commute = raw_commute a,
       detail_attempted = (case raw_detail_attempted a of None \<Rightarrow> False | Some b \<Rightarrow> b) \<rparr>"

text \<open>An identifier is truthy when it is present and not zero.\<close>

definition truthy :: "nat option \<Rightarrow> bool" where
  "truthy i = (case i of None \<Rightarrow> False | Some n \<Rightarrow> n \<noteq> 0)"

definition asSportType :: "activity \<Rightarrow> string" where
  "asSportType a = (case strOr (sport_type a) None of None \<Rightarrow> [] | Some t \<Rightarrow> t)"

definition isRun :: "activity \<Rightarrow> bool" where
  "isRun a = (let t = asSportType a in
     t = ''Run'' \<or> t = ''TrailRun'' \<or> t = ''VirtualRun'' \<or> t = ''Treadmill'')"

definition isRide :: "activity \<Rightarrow> bool" where
  "isRide a = (let t = asSportType a in
     t = ''Ride'' \<or> t = ''VirtualRide'' \<or> t = ''EBikeRide'' \<or> t = ''GravelRide'')"

subsection \<open>The cache merge\<close>

text \<open>
  A \<open>Map\<close> keeps its keys in the order of their first insertion; setting a key that is
  present replaces the value where it stands.
\<close>

fun map_set :: "('k \<times> 'v) list \<Rightarrow> 'k \<Rightarrow> 'v \<Rightarrow> ('k \<times> 'v) list" where
  "map_set [] k v = [(k, v)]"
| "map_set (e # m) k v = (if fst e = k then (k, v) # m else e # map_set m k v)"

definition set_cached :: "activity list \<Rightarrow> (nat option \<times> activity) list \<Rightarrow> (nat option \<times> activity) list" where
  "set_cached cachedActivities m = fold (\<lambda>a m. map_set m (aid a) a) cachedActivities m"

definition set_fresh :: "raw_activity list \<Rightarrow> (nat option \<times> activity) list \<Rightarrow> (nat option \<times> activity) list" where
  "set_fresh fresh m = fold (\<lambda>a m. map_set m (raw_id a) (minimizeActivity a)) fresh m"

text \<open>\<open>new Date(a.start_date || 0).getTime()\<close>, the key of the sort.\<close>

definition getTime :: "activity \<Rightarrow> int" where
  "getTime a = (case start_date a of None \<Rightarrow> 0 | Some ms \<Rightarrow> ms)"

text \<open>
  The sort is stable and its comparator is \<open>db - da\<close>: descending in \<open>getTime\<close>, which is
  the stable insertion sort on the negated key.
\<close>

definition merge :: "activity list \<Rightarrow> raw_activity list \<Rightarrow> activity list" where
  "merge cachedActivities fresh =
     (let m = set_fresh fresh (set_cached cachedActivities []);
          merged = filter (\<lambda>a. truthy (aid a)) (map snd m)
      in sort_key (\<lambda>a. - getTime a) merged)"

definition freshIds :: "raw_activity list \<Rightarrow> nat option list" where
  "freshIds fresh = filter truthy (map raw_id fresh)"

text \<open>The map after both loops, and the invariant that every entry is stored under the
  identifier of its value.\<close>

definition merged_map :: "activity list \<Rightarrow> raw_activity list \<Rightarrow> (nat option \<times> activity) list" where
  "merged_map c f = set_fresh f (set_cached c [])"

definition key_ok :: "(nat option \<times> activity) list \<Rightarrow> bool" where
  "key_ok m = list_all (\<lambda>p. aid (snd p) = fst p) m"

subsection \<open>The detail backfill\<close>

text \<open>
  \<open>detail i\<close> is what \<open>fetchActivityDetail\<close> gives for the identifier \<open>i\<close>: \<open>None\<close> when
  the request throws, \<open>Some d\<close> for a decoded body. \<open>lookups\<close> lists the requests issued,
  in order; \<open>detailFetched\<close> is the script's counter.
\<close>

record backfill_result =
  records :: "activity list"
  detailFetched :: nat
  lookups :: "nat option list"

fun backfill_loop ::
  "(nat option \<Rightarrow> raw_activity option) \<Rightarrow> nat option list \<Rightarrow> int \<Rightarrow> nat \<Rightarrow> activity list
    \<Rightarrow> backfill_result" where
  "backfill_loop detail ids detailMax n [] = \<lparr>records = [], detailFetched = n, lookups = []\<rparr>"
| "backfill_loop detail ids detailMax n (a # rest) =
     (if detailMax \<le> int n then \<lparr>records = a # rest, detailFetched = n, lookups = []\<rparr>
      else if \<not> truthy (aid a) \<or> aid a \<notin> set ids \<or> detail_attempted a then
        (let r = backfill_loop detail ids detailMax n rest in r\<lparr>records := a # records r\<rparr>)
      else if calories_kcal a \<noteq> None \<or> kilojoules_kj a \<noteq> None then
        (let r = backfill_loop detail ids detailMax n rest
         in r\<lparr>records := a\<lparr>detail_attempted := True\<rparr> # records r\<rparr>)
      else
        (case detail (aid a) of
           Some d \<Rightarrow>
             (let r = backfill_loop detail ids detailMax (Suc n) rest
              in r\<lparr>records := (minimizeActivity d)\<lparr>detail_attempted := True\<rparr> # records r,
                   lookups := aid a # lookups r\<rparr>)
         | None \<Rightarrow>
             (let r = backfill_loop detail ids detailMax n rest
              in r\<lparr>records := a\<lparr>detail_attempted := True\<rparr> # records r,
                   lookups := aid a # lookups r\<rparr>)))"

definition backfill ::
  "(nat option \<Rightarrow> raw_activity option) \<Rightarrow> nat option list \<Rightarrow> int \<Rightarrow> activity list
    \<Rightarrow> backfill_result" where
  "backfill detail ids detailMax merged =
     (if 0 < detailMax then backfill_loop detail ids detailMax 0 merged
      else \<lparr>records = merged, detailFetched = 0, lookups = []\<rparr>)"

subsection \<open>The next sync point\<close>

definition newestEpoch :: "activity list \<Rightarrow> int" where
  "newestEpoch merged =
     (case merged of
        [] \<Rightarrow> 0
      | newest # rest \<Rightarrow> (case start_date newest of None \<Rightarrow> 0 | Some ms \<Rightarrow> ms div 1000))"

definition nextAfterEpoch :: "activity list \<Rightarrow> int \<Rightarrow> int" where
  "nextAfterEpoch merged afterEpochFromState =
     (if 0 < newestEpoch merged then max 0 (newestEpoch merged - 60) else afterEpochFromState)"

subsection \<open>The statistics engine\<close>

text \<open>The baseline document and the athlete statistics, as far as the engine reads them.\<close>

record farthest_pr =
  distanceKm :: "num option"
  paceText :: jstext
  dateText :: jstext

record time_pr =
  timeText :: "string option"
  unit :: "string option"
  paceText :: "string option"

record best_prs =
  farthest :: "farthest_pr option"
  best5k :: "time_pr option"
  best10k :: "time_pr option"

record running_baseline =
  totalDistanceKm :: "num option"
  avgPaceText :: "string option"
  best :: "best_prs option"

record baseline =
  running :: "running_baseline option"

record totals =
  distance :: "num option"
  moving_time :: "num option"
  count :: "num option"

record athlete_stats =
  all_run_totals :: "totals option"
  all_ride_totals :: "totals option"

text \<open>\<open>arr.reduce((acc, x) => acc + (Number(pick(x)) || 0), 0)\<close>.\<close>

definition sum_pick :: "activity list \<Rightarrow> (activity \<Rightarrow> num option) \<Rightarrow> num" where
  "sum_pick arr pick = foldl (\<lambda>acc x. acc + numOr0 (pick x)) 0 arr"

definition statsAllRun :: "athlete_stats option \<Rightarrow> totals option" where
  "statsAllRun athleteStats = Option.bind athleteStats all_run_totals"

definition statsAllRide :: "athlete_stats option \<Rightarrow> totals option" where
  "statsAllRide athleteStats = Option.bind athleteStats all_ride_totals"

definition baselineDistanceKm :: "baseline \<Rightarrow> num" where
  "baselineDistanceKm b = numOr0 (Option.bind (running b) totalDistanceKm)"

definition runDistanceKm :: "baseline \<Rightarrow> activity list \<Rightarrow> athlete_stats option \<Rightarrow> num" where
  "runDistanceKm b activities athleteStats =
     baselineDistanceKm b +
     (case Option.bind (statsAllRun athleteStats) distance of
        Some d \<Rightarrow> d / 1000
      | None \<Rightarrow> sum_pick (filter isRun activities) distance_m / 1000)"

definition baselinePaceSec :: "baseline \<Rightarrow> nat" where
  "baselinePaceSec b = parsePaceToSeconds (Option.bind (running b) avgPaceText)"

definition baselineTimeH :: "baseline \<Rightarrow> num" where
  "baselineTimeH b = baselineDistanceKm b * of_nat (baselinePaceSec b) / 3600"

definition runTimeH :: "baseline \<Rightarrow> activity list \<Rightarrow> athlete_stats option \<Rightarrow> num" where
  "runTimeH b activities athleteStats =
     baselineTimeH b +
     (case Option.bind (statsAllRun athleteStats) moving_time of
        Some t \<Rightarrow> t / 3600
      | None \<Rightarrow> sum_pick (filter isRun activities) moving_time_s / 3600)"

definition rideDistanceKm :: "activity list \<Rightarrow> athlete_stats option \<Rightarrow> num" where
  "rideDistanceKm activities athleteStats =
     (case Option.bind (statsAllRide athleteStats) distance of
        Some d \<Rightarrow> d / 1000
      | None \<Rightarrow> sum_pick (filter isRide activities) distance_m / 1000)"

definition rideTimeH :: "activity list \<Rightarrow> athlete_stats option \<Rightarrow> num" where
  "rideTimeH activities athleteStats =
     (case Option.bind (statsAllRide athleteStats) moving_time of
        Some t \<Rightarrow> t / 3600
      | None \<Rightarrow> sum_pick (filter isRide activities) moving_time_s / 3600)"

definition rideCount :: "activity list \<Rightarrow> athlete_stats option \<Rightarrow> num" where
  "rideCount activities athleteStats =
     (case Option.bind (statsAllRide athleteStats) count of
        Some c \<Rightarrow> c
      | None \<Rightarrow> of_nat (length (filter isRide activities)))"

definition rideCalories :: "activity list \<Rightarrow> num" where
  "rideCalories activities =
     sum_pick (filter isRide activities)
       (\<lambda>a. if calories_kcal a \<noteq> None then calories_kcal a
            else if kilojoules_kj a \<noteq> None then Some (numOr0 (kilojoules_kj a) * (239006 / 1000000))
            else Some 0)"

text \<open>\<open>formatDateYmdDot\<close>; a missing date makes an invalid \<open>Date\<close>, whose getters are \<open>NaN\<close>.\<close>

definition formatDateYmdDot :: "(int \<Rightarrow> nat \<times> nat \<times> nat) \<Rightarrow> int option \<Rightarrow> string" where
  "formatDateYmdDot cal dateLike =
     (case dateLike of
        None \<Rightarrow> ''NaN.NaN.NaN''
      | Some ms \<Rightarrow>
          (case cal ms of (y, m, day) \<Rightarrow> show_nat y @ ''.'' @ pad2 (m + 1) @ ''.'' @ pad2 day))"

text \<open>\<open>a.start_date_local || a.start_date\<close>.\<close>

definition dateOf :: "activity \<Rightarrow> int option" where
  "dateOf a = (case start_date_local a of Some d \<Rightarrow> Some d | None \<Rightarrow> start_date a)"

text \<open>\<open>(Number(a.distance_m) || 0) / 1000\<close> and \<open>Number(a.moving_time_s) || 0\<close>, in doubles.\<close>

definition kmOf :: "activity \<Rightarrow> num" where
  "kmOf a = dbl (dbl (numOr0 (distance_m a)) / 1000)"

definition timeOf :: "activity \<Rightarrow> num" where
  "timeOf a = dbl (numOr0 (moving_time_s a))"

text \<open>\<open>t / clamp(km, 0.001, 1e9)\<close>, in doubles.\<close>

definition perKm :: "num \<Rightarrow> num \<Rightarrow> num" where
  "perKm t km = dbl (t / clamp km (dbl (1 / 1000)) 1000000000)"

text \<open>The farthest activity: the reducer keeps the first one of the greatest distance
  above zero.\<close>

definition farthest_step :: "(activity \<times> num) option \<Rightarrow> activity \<Rightarrow> (activity \<times> num) option" where
  "farthest_step best' a =
     (let km = kmOf a
      in if km > (case best' of None \<Rightarrow> 0 | Some b \<Rightarrow> snd b) then Some (a, km) else best')"

definition bestRide :: "activity list \<Rightarrow> (activity \<times> num) option" where
  "bestRide activities = foldl farthest_step None (filter isRide activities)"

definition bestRun :: "activity list \<Rightarrow> (activity \<times> num) option" where
  "bestRun activities = foldl farthest_step None (filter isRun activities)"

definition bestRideKm :: "activity list \<Rightarrow> num" where
  "bestRideKm activities = (case bestRide activities of None \<Rightarrow> 0 | Some b \<Rightarrow> snd b)"

definition bestRideSubtext :: "(int \<Rightarrow> nat \<times> nat \<times> nat) \<Rightarrow> activity list \<Rightarrow> string option" where
  "bestRideSubtext cal activities =
     (case bestRide activities of
        None \<Rightarrow> None
      | Some b \<Rightarrow>
          (let bestRideDate = formatDateYmdDot cal (dateOf (fst b));
               bestRideAvgKmh = dbl (dbl (numOr0 (average_speed_mps (fst b))) * dbl (36 / 10))
           in if dbl (numOr0 (average_speed_mps (fst b))) \<noteq> 0 \<and> bestRideAvgKmh \<noteq> 0
              then Some (''~'' @ toFixedTrim bestRideAvgKmh 1 @ '' km/h @'' @ bestRideDate)
              else Some (''@'' @ bestRideDate)))"

text \<open>The farthest run, baseline against the records.\<close>

definition baselineFarthest :: "baseline \<Rightarrow> farthest_pr option" where
  "baselineFarthest b = Option.bind (Option.bind (running b) best) farthest"

definition baselineFarthestKm :: "baseline \<Rightarrow> num" where
  "baselineFarthestKm b = dbl (numOr0 (Option.bind (baselineFarthest b) distanceKm))"

definition bestRunKm :: "activity list \<Rightarrow> num" where
  "bestRunKm activities = (case bestRun activities of None \<Rightarrow> 0 | Some b \<Rightarrow> snd b)"

definition farthestPromoted :: "baseline \<Rightarrow> activity list \<Rightarrow> bool" where
  "farthestPromoted b activities =
     (bestRun activities \<noteq> None \<and> bestRunKm activities > baselineFarthestKm b)"


definition farthestSubtext ::
  "(int \<Rightarrow> nat \<times> nat \<times> nat) \<Rightarrow> baseline \<Rightarrow> activity list \<Rightarrow> string option" where
  "farthestSubtext cal b activities =
     (case (if farthestPromoted b activities then bestRun activities else None) of
        Some r \<Rightarrow>
          (let km = snd r;
               secPerKm = perKm (timeOf (fst r)) km;
               date = formatDateYmdDot cal (dateOf (fst r))
           in (case formatPaceSecPerKm secPerKm of
                 Some pace \<Rightarrow> Some (pace @ '' @'' @ date)
               | None \<Rightarrow> Some (''@'' @ date)))
      | None \<Rightarrow>
          (case baselineFarthest b of
             Some f \<Rightarrow> Some (tmpl (farthest_pr.paceText f) @ '' @'' @ tmpl (dateText f))
           | None \<Rightarrow> None))"

text \<open>The best 5 km and 10 km.\<close>

record candidate =
  cand :: activity
  km :: num
  timeSec :: num
  paceSecPerKm :: num

definition best_step :: "num \<Rightarrow> num \<Rightarrow> candidate option \<Rightarrow> activity \<Rightarrow> candidate option" where
  "best_step targetKm toleranceKm best' a =
     (let k = kmOf a; t = timeOf a
      in if \<bar>dbl (k - targetKm)\<bar> > toleranceKm then best'
         else if t \<le> 0 then best'
         else if (case best' of None \<Rightarrow> True | Some b \<Rightarrow> t < timeSec b)
              then Some \<lparr>cand = a, km = k, timeSec = t,
                         paceSecPerKm = perKm t k\<rparr>
              else best')"

definition findBestForDistance :: "activity list \<Rightarrow> num \<Rightarrow> num \<Rightarrow> candidate option" where
  "findBestForDistance activities targetKm toleranceKm =
     foldl (best_step targetKm toleranceKm) None (filter isRun activities)"

definition baseline5k :: "baseline \<Rightarrow> time_pr option" where
  "baseline5k b = Option.bind (Option.bind (running b) best) best5k"

definition baseline10k :: "baseline \<Rightarrow> time_pr option" where
  "baseline10k b = Option.bind (Option.bind (running b) best) best10k"

text \<open>\<open>best && baselineSec != null ? (best.timeSec < baselineSec ? best : null) : null\<close>.\<close>

definition chosen :: "candidate option \<Rightarrow> int option \<Rightarrow> candidate option" where
  "chosen best' baselineSec =
     (case best' of
        None \<Rightarrow> None
      | Some c \<Rightarrow>
          (case baselineSec of
             None \<Rightarrow> None
           | Some s \<Rightarrow> (if timeSec c < of_int s then Some c else None)))"

definition prValue :: "candidate option \<Rightarrow> time_pr option \<Rightarrow> string option" where
  "prValue ch base =
     (case ch of
        Some c \<Rightarrow> formatTimeMinTextFromSec (timeSec c)
      | None \<Rightarrow> (case Option.bind base timeText of Some t \<Rightarrow> Some t | None \<Rightarrow> Some []))"

definition prSub ::
  "(int \<Rightarrow> nat \<times> nat \<times> nat) \<Rightarrow> candidate option \<Rightarrow> time_pr option \<Rightarrow> string" where
  "prSub cal ch base =
     (case ch of
        Some c \<Rightarrow>
          (case formatPaceSecPerKm (paceSecPerKm c) of None \<Rightarrow> ''null'' | Some p \<Rightarrow> p)
            @ '' @'' @ formatDateYmdDot cal (dateOf (cand c))
      | None \<Rightarrow> (case Option.bind base time_pr.paceText of Some t \<Rightarrow> t | None \<Rightarrow> []))"

definition best5kChosen :: "baseline \<Rightarrow> activity list \<Rightarrow> candidate option" where
  "best5kChosen b activities =
     chosen (findBestForDistance activities 5 (dbl (8 / 100)))
       (parseBaselineTimeToSec (Option.bind (baseline5k b) timeText))"

definition best10kChosen :: "baseline \<Rightarrow> activity list \<Rightarrow> candidate option" where
  "best10kChosen b activities =
     chosen (findBestForDistance activities 10 (dbl (12 / 100)))
       (parseBaselineTimeToSec (Option.bind (baseline10k b) timeText))"

definition best5kValue :: "baseline \<Rightarrow> activity list \<Rightarrow> string option" where
  "best5kValue b activities = prValue (best5kChosen b activities) (baseline5k b)"

definition best10kValue :: "baseline \<Rightarrow> activity list \<Rightarrow> string option" where
  "best10kValue b activities = prValue (best10kChosen b activities) (baseline10k b)"

definition best5kSub :: "(int \<Rightarrow> nat \<times> nat \<times> nat) \<Rightarrow> baseline \<Rightarrow> activity list \<Rightarrow> string" where
  "best5kSub cal b activities = prSub cal (best5kChosen b activities) (baseline5k b)"

definition best10kSub :: "(int \<Rightarrow> nat \<times> nat \<times> nat) \<Rightarrow> baseline \<Rightarrow> activity list \<Rightarrow> string" where
  "best10kSub cal b activities = prSub cal (best10kChosen b activities) (baseline10k b)"

text \<open>
  The selection the best 5 km and 10 km are compared with, in words: a record is eligible
  when it is a run within the tolerance of the target (the difference rounded as the
  subtraction of the script rounds it) and its moving time is positive; a fastest record
  is an eligible one that no eligible record beats.
\<close>

definition eligible :: "num \<Rightarrow> num \<Rightarrow> activity \<Rightarrow> bool" where
  "eligible targetKm toleranceKm a =
     (isRun a \<and> \<bar>dbl (kmOf a - targetKm)\<bar> \<le> toleranceKm \<and> 0 < timeOf a)"

definition fastest :: "num \<Rightarrow> num \<Rightarrow> activity list \<Rightarrow> activity \<Rightarrow> bool" where
  "fastest targetKm toleranceKm activities c =
     (c \<in> set activities \<and> eligible targetKm toleranceKm c \<and>
      list_all (\<lambda>a. eligible targetKm toleranceKm a \<longrightarrow> timeOf c \<le> timeOf a) activities)"

text \<open>
  The cards of the document the engine returns, by their values and computed subtexts.
  The fixed labels and units, the time stamp and the yearly and monthly rollups are left
  out: no property below reads them.
\<close>

record stats_doc =
  running_totalDistance_value :: string
  running_totalDistance_subtext :: "string option"
  running_totalTime_value :: string
  cycling_totalDistance_value :: string
  cycling_totalTime_value :: string
  cycling_totalCount_value :: string
  cycling_totalCount_subtext :: "string option"
  cycling_farthest_value :: string
  cycling_farthest_subtext :: "string option"

text \<open>\<open>Math.trunc\<close> of a count, printed.\<close>

definition show_trunc :: "num \<Rightarrow> string" where
  "show_trunc c =
     (let n = nat \<lfloor>\<bar>c\<bar>\<rfloor>
      in if c < 0 \<and> n \<noteq> 0 then CHR ''-'' # show_nat n else show_nat n)"

text \<open>The unit after \<open>km/\<close> in the subtext of the ride count, one character of three bytes
  in UTF-8.\<close>

definition ci :: string where
  "ci = [CHR 0xE6, CHR 0xAC, CHR 0xA1]"

definition computeSportsStats ::
  "(int \<Rightarrow> nat \<times> nat \<times> nat) \<Rightarrow> baseline \<Rightarrow> activity list \<Rightarrow> athlete_stats option \<Rightarrow> stats_doc" where
  "computeSportsStats cal b activities athleteStats =
     \<lparr> running_totalDistance_value = toFixedTrim (runDistanceKm b activities athleteStats) 2,
       running_totalDistance_subtext = strOr (Option.bind (running b) avgPaceText) None,
       running_totalTime_value = toFixedTrim (runTimeH b activities athleteStats) 1,
       cycling_totalDistance_value = toFixedTrim (rideDistanceKm activities athleteStats) 2,
       cycling_totalTime_value = toFixedTrim (rideTimeH activities athleteStats) 2,
       cycling_totalCount_value = show_trunc (rideCount activities athleteStats),
       cycling_totalCount_subtext =
         (if rideCount activities athleteStats > 0
          then Some (''~'' @ toFixedTrim (rideDistanceKm activities athleteStats
                       / rideCount activities athleteStats) 1 @ '' km/'' @ ci)
          else None),
       cycling_farthest_value =
         toFixedTrim (bestRideKm activities) (if bestRideKm activities \<ge> 100 then 1 else 2),
       cycling_farthest_subtext = bestRideSubtext cal activities \<rparr>"

subsection \<open>The run\<close>

text \<open>
  What a run reads: the environment, the three files (a missing or unreadable file is
  its fallback already) and the answers of the remote service. What it leaves: the exit
  status, the error printed on the error stream, the files written, in order, and the
  detail requests issued, in order. Writes are assumed to succeed. The numeric
  environment variables are taken as already converted; a missing or empty one is \<open>None\<close>.
\<close>

datatype error =
    MissingEnv string
  | TokenRefreshFailed nat string
  | MissingAccessToken
  | AthleteStatsFailed nat string
  | ActivitiesFailed nat string
  | NotAnArray

datatype 'a http = HttpFail nat string | HttpOk 'a

datatype page_body = NotArray | Arr "raw_activity list"

record token_json =
  access_token :: "string option"
  athlete_id :: "nat option"

record env =
  STRAVA_CLIENT_ID :: "string option"
  STRAVA_CLIENT_SECRET :: "string option"
  STRAVA_REFRESH_TOKEN :: "string option"
  STRAVA_INITIAL_AFTER_EPOCH :: "int option"
  STRAVA_DETAIL_MAX :: "int option"

record disk =
  baseline_json :: baseline
  lastSyncEpoch :: "int option"
  activities_json :: "activity list"

record remote =
  token_response :: "token_json http"
  stats_response :: "nat \<Rightarrow> athlete_stats option http"
  activities_response :: "int option \<Rightarrow> nat \<Rightarrow> page_body http"
  detail_response :: "nat option \<Rightarrow> raw_activity option"

datatype written = WriteActivities "activity list" | WriteState int | WriteStats stats_doc

record outcome =
  exit_status :: nat
  printed_error :: "error option"
  writes :: "written list"
  detail_lookups :: "nat option list"

definition mustGetEnv :: "string \<Rightarrow> string option \<Rightarrow> error + string" where
  "mustGetEnv nm v = (case strOr v None of None \<Rightarrow> Inl (MissingEnv nm) | Some s \<Rightarrow> Inr s)"

definition stravaRefreshAccessToken :: "env \<Rightarrow> remote \<Rightarrow> error + (string \<times> nat option)" where
  "stravaRefreshAccessToken e r =
     (case mustGetEnv ''STRAVA_CLIENT_ID'' (STRAVA_CLIENT_ID e) of
        Inl err \<Rightarrow> Inl err
      | Inr client_id \<Rightarrow>
     (case mustGetEnv ''STRAVA_CLIENT_SECRET'' (STRAVA_CLIENT_SECRET e) of
        Inl err \<Rightarrow> Inl err
      | Inr client_secret \<Rightarrow>
     (case mustGetEnv ''STRAVA_REFRESH_TOKEN'' (STRAVA_REFRESH_TOKEN e) of
        Inl err \<Rightarrow> Inl err
      | Inr refresh_token \<Rightarrow>
     (case token_response r of
        HttpFail status txt \<Rightarrow> Inl (TokenRefreshFailed status txt)
      | HttpOk json \<Rightarrow>
          (case strOr (access_token json) None of
             None \<Rightarrow> Inl MissingAccessToken
           | Some tok \<Rightarrow> Inr (tok, athlete_id json))))))"

definition fetchAthleteStats :: "remote \<Rightarrow> nat option \<Rightarrow> error + athlete_stats option" where
  "fetchAthleteStats r athleteId =
     (case athleteId of
        None \<Rightarrow> Inr None
      | Some i \<Rightarrow>
          (if i = 0 then Inr None
           else (case stats_response r i of
                   HttpFail status txt \<Rightarrow> Inl (AthleteStatsFailed status txt)
                 | HttpOk json \<Rightarrow> Inr json)))"

definition per_page :: nat where
  "per_page = 200"

definition maxPages :: nat where
  "maxPages = 20"

text \<open>The page loop, \<open>left\<close> pages before the hard stop.\<close>

fun fetchPages ::
  "(nat \<Rightarrow> page_body http) \<Rightarrow> nat \<Rightarrow> nat \<Rightarrow> raw_activity list \<Rightarrow> error + raw_activity list" where
  "fetchPages get 0 page out = Inr out"
| "fetchPages get (Suc left) page out =
     (case get page of
        HttpFail status txt \<Rightarrow> Inl (ActivitiesFailed status txt)
      | HttpOk NotArray \<Rightarrow> Inl NotAnArray
      | HttpOk (Arr arr) \<Rightarrow>
          (if length arr < per_page then Inr (out @ arr)
           else fetchPages get left (Suc page) (out @ arr)))"

definition fetchActivities :: "remote \<Rightarrow> int \<Rightarrow> error + raw_activity list" where
  "fetchActivities r afterEpoch =
     fetchPages (activities_response r (if 0 < afterEpoch then Some afterEpoch else None))
       maxPages 1 []"

definition afterEpochFromState :: "disk \<Rightarrow> int" where
  "afterEpochFromState d = (case lastSyncEpoch d of None \<Rightarrow> 0 | Some n \<Rightarrow> n)"

definition afterEpoch :: "env \<Rightarrow> disk \<Rightarrow> int" where
  "afterEpoch e d =
     (if 0 < afterEpochFromState d then afterEpochFromState d
      else (case STRAVA_INITIAL_AFTER_EPOCH e of None \<Rightarrow> 0 | Some n \<Rightarrow> n))"

definition detailMax :: "env \<Rightarrow> int" where
  "detailMax e = (case STRAVA_DETAIL_MAX e of None \<Rightarrow> 30 | Some n \<Rightarrow> n)"

definition failed :: "error \<Rightarrow> outcome" where
  "failed err = \<lparr>exit_status = 1, printed_error = Some err, writes = [], detail_lookups = []\<rparr>"

definition main :: "(int \<Rightarrow> nat \<times> nat \<times> nat) \<Rightarrow> env \<Rightarrow> disk \<Rightarrow> remote \<Rightarrow> outcome" where
  "main cal e d r =
     (case stravaRefreshAccessToken e r of
        Inl err \<Rightarrow> failed err
      | Inr (accessToken, athleteId) \<Rightarrow>
     (case fetchAthleteStats r athleteId of
        Inl err \<Rightarrow> failed err
      | Inr athleteStats \<Rightarrow>
     (case fetchActivities r (afterEpoch e d) of
        Inl err \<Rightarrow> failed err
      | Inr fresh \<Rightarrow>
          (let bf = backfill (detail_response r) (freshIds fresh) (detailMax e)
                      (merge (activities_json d) fresh);
               merged = records bf
           in \<lparr> exit_status = 0,
                printed_error = None,
                writes = [WriteActivities merged,
                          WriteState (nextAfterEpoch merged (afterEpochFromState d)),
                          WriteStats (computeSportsStats cal (baseline_json d) merged athleteStats)],
                detail_lookups = lookups bf \<rparr>))))"

subsection \<open>Auxiliary notions for the proofs\<close>


definition best_ok :: "activity set \<Rightarrow> (activity \<times> num) option \<Rightarrow> bool" where
  "best_ok S acc = (case acc of None \<Rightarrow> True
                    | Some b \<Rightarrow> fst b \<in> S \<and> snd b = kmOf (fst b) \<and> 0 < snd b)"

text \<open>What holds of the best candidate over the runs seen so far.\<close>

definition cand_ok :: "num \<Rightarrow> num \<Rightarrow> activity set \<Rightarrow> candidate option \<Rightarrow> bool" where
  "cand_ok T tol S acc =
     (case acc of
        None \<Rightarrow> (\<forall>a \<in> S. \<not> (\<bar>dbl (kmOf a - T)\<bar> \<le> tol \<and> 0 < timeOf a))
      | Some c \<Rightarrow> cand c \<in> S \<and> \<bar>dbl (kmOf (cand c) - T)\<bar> \<le> tol \<and> 0 < timeOf (cand c) \<and>
          timeSec c = timeOf (cand c) \<and> km c = kmOf (cand c) \<and>
          paceSecPerKm c = perKm (timeOf (cand c)) (kmOf (cand c)) \<and>
          (\<forall>a \<in> S. \<bar>dbl (kmOf a - T)\<bar> \<le> tol \<and> 0 < timeOf a \<longrightarrow> timeSec c \<le> timeOf a))"

text \<open>
  The fatal steps, in words. A page is full when it is a sequence of at least the page
  size, bad when the request fails or the body is not a sequence. The page fetch fails
  when some page within the hard stop is bad and every page before it is full. The
  lifetime totals fetch fails when the token answer carries a truthy athlete identifier
  and the request for it fails.
\<close>

definition page_full :: "page_body http \<Rightarrow> bool" where
  "page_full p = (case p of HttpOk (Arr arr) \<Rightarrow> per_page \<le> length arr | _ \<Rightarrow> False)"

definition page_bad :: "page_body http \<Rightarrow> bool" where
  "page_bad p = (case p of HttpFail status txt \<Rightarrow> True | HttpOk NotArray \<Rightarrow> True | _ \<Rightarrow> False)"

definition pages_of :: "env \<Rightarrow> disk \<Rightarrow> remote \<Rightarrow> nat \<Rightarrow> page_body http" where
  "pages_of e d r = activities_response r (if 0 < afterEpoch e d then Some (afterEpoch e d) else None)"

definition token_fails :: "remote \<Rightarrow> bool" where
  "token_fails r = (case token_response r of HttpFail status txt \<Rightarrow> True | HttpOk json \<Rightarrow> False)"

definition stats_fails :: "remote \<Rightarrow> bool" where
  "stats_fails r =
     (case token_response r of
        HttpFail status txt \<Rightarrow> False
      | HttpOk json \<Rightarrow>
          (case athlete_id json of
             None \<Rightarrow> False
           | Some i \<Rightarrow> i \<noteq> 0 \<and>
               (case stats_response r i of HttpFail status txt \<Rightarrow> True | HttpOk s \<Rightarrow> False)))"

definition page_fails :: "env \<Rightarrow> disk \<Rightarrow> remote \<Rightarrow> bool" where
  "page_fails e d r =
     list_ex (\<lambda>k. list_all (\<lambda>j. page_full (pages_of e d r (Suc j))) [0..<k]
                   \<and> page_bad (pages_of e d r (Suc k))) [0..<maxPages]"

definition succeeded :: "env \<Rightarrow> disk \<Rightarrow> remote \<Rightarrow> bool" where
  "succeeded e d r =
     (case stravaRefreshAccessToken e r of
        Inl err \<Rightarrow> False
      | Inr ta \<Rightarrow>
          (case fetchAthleteStats r (snd ta) of
             Inl err \<Rightarrow> False
           | Inr st \<Rightarrow> (case fetchActivities r (afterEpoch e d) of Inl err \<Rightarrow> False | Inr fresh \<Rightarrow> True)))"

subsection \<open>Concrete inputs\<close>

text \<open>A raw activity with every field missing, to build examples from.\<close>

definition blank_raw :: raw_activity where
  "blank_raw =
     \<lparr> raw_id = None, raw_sport_type = None, raw_type = None, raw_name = None,
       raw_start_date = None, raw_start_date_local = None, raw_distance = None,
       raw_moving_time = None, raw_elapsed_time = None, raw_total_elevation_gain = None,
       raw_calories = None, raw_kilojoules = None, raw_average_speed = None,
       raw_max_speed = None, raw_average_temp = None, raw_average_watts = None,
       raw_has_heartrate = None, raw_average_heartrate = None, raw_max_heartrate = None,
       raw_device_name = None, raw_trainer = None, raw_commute = None,
       raw_detail_attempted = None \<rparr>"

text \<open>A raw run: identifier, start instant in milliseconds, metres, seconds.\<close>

definition raw_run :: "nat \<Rightarrow> int \<Rightarrow> num \<Rightarrow> num \<Rightarrow> raw_activity" where
  "raw_run i ms d t =
     blank_raw\<lparr> raw_id := Some i, raw_sport_type := Some ''Run'', raw_start_date := Some ms,
                raw_distance := Some d, raw_moving_time := Some t \<rparr>"

definition run_rec :: "nat \<Rightarrow> int \<Rightarrow> num \<Rightarrow> num \<Rightarrow> activity" where
  "run_rec i ms d t = minimizeActivity (raw_run i ms d t)"

definition cal0 :: "int \<Rightarrow> nat \<times> nat \<times> nat" where
  "cal0 ms = (1970, 0, 1)"

text \<open>A cache of two runs, and a fetched list that brings the first one again (now twice as
  long) and a third one.\<close>

definition ex_cache :: "activity list" where
  "ex_cache = [run_rec 1 1000 5000 1500, run_rec 2 3000 5000 1500]"

definition ex_fresh :: "raw_activity list" where
  "ex_fresh = [raw_run 1 1000 10000 3600, raw_run 3 2000 1 1]"

text \<open>The pace text \<open>6'00''/km\<close>, and a baseline of 500 km at a given pace text.\<close>

definition pace6 :: string where
  "pace6 = ''6'' @ [apos] @ ''00'' @ [apos, apos] @ ''/km''"

definition baseline500 :: "string \<Rightarrow> baseline" where
  "baseline500 p =
     \<lparr> running = Some \<lparr> totalDistanceKm = Some 500, avgPaceText = Some p, best = None \<rparr> \<rparr>"

text \<open>A baseline with a farthest run of 21.1 km, a best 5 km of 27 min 31 s and a best
  10 km of 59 min 1 s.\<close>

definition baseline_prs :: baseline where
  "baseline_prs =
     \<lparr> running = Some
         \<lparr> totalDistanceKm = Some 500, avgPaceText = Some pace6,
           best = Some
             \<lparr> farthest = Some \<lparr> distanceKm = Some (211 / 10), paceText = Text pace6,
                                 dateText = Text ''2024.11.03'' \<rparr>,
               best5k = Some \<lparr> timeText = Some ''27.31'', unit = Some ''min'',
                               paceText = Some pace6 \<rparr>,
               best10k = Some \<lparr> timeText = Some ''59:01'', unit = Some ''min'',
                                paceText = Some pace6 \<rparr> \<rparr> \<rparr> \<rparr>"

definition acts8 :: "activity list" where
  "acts8 = [run_rec 4 0 5000 1500, run_rec 2 0 5050 1600, run_rec 3 0 10000 3600]"

text \<open>
  An environment with all credentials, an empty disk, and a remote service that serves a
  feed on its first page (the activities started after the lower bound, when one is sent)
  and answers detail requests by \<open>det\<close>. \<open>persist\<close> applies the writes of a run to the
  disk the next run reads.
\<close>

definition env0 :: "int option \<Rightarrow> env" where
  "env0 mx = \<lparr> STRAVA_CLIENT_ID = Some ''id'', STRAVA_CLIENT_SECRET = Some ''secret'',
               STRAVA_REFRESH_TOKEN = Some ''refresh'', STRAVA_INITIAL_AFTER_EPOCH = None,
               STRAVA_DETAIL_MAX = mx \<rparr>"

definition disk0 :: disk where
  "disk0 = \<lparr> baseline_json = baseline500 pace6, lastSyncEpoch = None, activities_json = [] \<rparr>"

definition started_after :: "int option \<Rightarrow> raw_activity \<Rightarrow> bool" where
  "started_after after a =
     (case after of
        None \<Rightarrow> True
      | Some t \<Rightarrow> (case raw_start_date a of None \<Rightarrow> False | Some ms \<Rightarrow> t * 1000 < ms))"

definition remote0 :: "raw_activity list \<Rightarrow> (nat option \<Rightarrow> raw_activity option) \<Rightarrow> remote" where
  "remote0 feed det =
     \<lparr> token_response = HttpOk \<lparr> access_token = Some ''token'', athlete_id = Some 7 \<rparr>,
       stats_response = (\<lambda>i. HttpOk None),
       activities_response =
         (\<lambda>after page. HttpOk (Arr (if page = 1 then filter (started_after after) feed else []))),
       detail_response = det \<rparr>"

fun persist :: "written list \<Rightarrow> disk \<Rightarrow> disk" where
  "persist [] d = d"
| "persist (WriteActivities m # ws) d = persist ws (d\<lparr>activities_json := m\<rparr>)"
| "persist (WriteState w # ws) d = persist ws (d\<lparr>lastSyncEpoch := Some w\<rparr>)"
| "persist (WriteStats s # ws) d = persist ws d"

definition feed1 :: "raw_activity list" where
  "feed1 = [raw_run 1 1700000000000 5000 1500]"

definition feed3 :: "raw_activity list" where
  "feed3 = [raw_run 1 1700000000000 5000 1500, raw_run 2 1700100000000 5000 1500,
            raw_run 3 1700200000000 5000 1500]"

definition no_detail :: "nat option \<Rightarrow> raw_activity option" where
  "no_detail i = None"

definition disk1 :: disk where
  "disk1 = persist (writes (main cal0 (env0 None) disk0 (remote0 feed1 no_detail))) disk0"

definition with_calories :: "nat option \<Rightarrow> raw_activity option" where
  "with_calories i =
     (case i of
        None \<Rightarrow> None
      | Some n \<Rightarrow> Some ((raw_run n 1700000000000 5000 1500)\<lparr>raw_calories := Some 300\<rparr>))"

definition remote_unauthorized :: remote where
  "remote_unauthorized = (remote0 feed1 no_detail)\<lparr> token_response := HttpFail 401 ''Unauthorized'' \<rparr>"

definition remote_stats_down :: remote where
  "remote_stats_down =
     (remote0 feed1 no_detail)\<lparr> stats_response := (\<lambda>i. HttpFail 503 ''Service Unavailable'') \<rparr>"

definition remote_not_array :: remote where
  "remote_not_array =
     (remote0 feed1 no_detail)\<lparr> activities_response := (\<lambda>after page. HttpOk NotArray) \<rparr>"

definition remote_no_athlete :: remote where
  "remote_no_athlete =
     (remote0 feed1 no_detail)
       \<lparr> token_response := HttpOk \<lparr> access_token = Some ''token'', athlete_id = None \<rparr>,
         stats_response := (\<lambda>i. HttpFail 500 ''unavailable'') \<rparr>"

section \<open>Properties\<close>

subsection \<open>Evaluating numbers and strings\<close>

declare show_nat.simps [simp del]

lemma show_nat_lt: "n < 10 \<Longrightarrow> show_nat n = [digit_char n]"
  by (simp add: show_nat.simps)

lemma show_nat_ge: "\<not> n < 10 \<Longrightarrow> show_nat n = show_nat (n div 10) @ [digit_char (n mod 10)]"
  by (subst show_nat.simps) simp

lemma floor_rat_numeral: "\<lfloor>(numeral a :: rat) / numeral b\<rfloor> = numeral a div numeral b"
  by (metis floor_divide_of_int_eq of_int_numeral)

lemmas eval_str = show_nat_lt show_nat_ge floor_rat_numeral digit_char_def all_zeros_def
  is_digit_def toFixedTrim_def toFixed_def round_js_def pad2_def apos_def

declare bits.simps [simp del]

lemma bits_le: "k \<le> 0 \<Longrightarrow> bits k = 0"
  by (simp add: bits.simps)

lemma bits_gt: "0 < k \<Longrightarrow> bits k = Suc (bits (k div 2))"
  by (subst bits.simps) simp

lemma ceiling_rat_numeral: "\<lceil>(numeral a :: rat) / numeral b\<rceil> = - ((- numeral a) div numeral b)"
  by (metis ceiling_divide_eq_div of_int_numeral)

lemmas eval_dbl = dbl_def ilog2_def round_even_def pow2_def bits_le bits_gt floor_rat_numeral
  ceiling_rat_numeral Let_def

declare skip_ws.simps [simp del]

lemma skip_ws_stop: "ws_len s = 0 \<Longrightarrow> skip_ws s = s"
  by (simp add: skip_ws.simps)

lemma skip_ws_step: "ws_len s \<noteq> 0 \<Longrightarrow> skip_ws s = skip_ws (drop (ws_len s) s)"
  by (subst skip_ws.simps) simp

lemmas eval_parse = parsePaceToSeconds_def pace_match_here_def parseBaselineTimeToSec_def
  minSecOf_def parseInt_def trim_def ws3_def skip_ws_stop skip_ws_step is_digit_def apos_def
  dbl_int_def eval_dbl

text \<open>The rounding at work: a tenth and two tenths do not add up to three tenths, an
  integer above \<open>2^53\<close> goes to the even neighbour, and 5080 m are not 0.08 km from 5 km.\<close>

lemma dbl_examples:
  "dbl (dbl (1 / 10) + dbl (2 / 10)) \<noteq> dbl (3 / 10)"
  "dbl 9007199254740993 = 9007199254740992"
  "dbl (dbl (5080 / 1000) - 5) = 45035996273705 / 562949953421312"
  "dbl (8 / 100) = 5764607523034235 / 72057594037927936"
  by (simp_all add: eval_dbl)

text \<open>White space around a time text: an ideographic space (U+3000) and a no-break space
  (U+00A0) are trimmed as a blank is.\<close>

lemma parseBaselineTimeToSec_examples:
  "parseBaselineTimeToSec (Some ''27.31'') = Some 1651"
  "parseBaselineTimeToSec (Some ([CHR 0xE3, CHR 0x80, CHR 0x80] @ ''27.31'')) = Some 1651"
  "parseBaselineTimeToSec (Some ('' 59:01'' @ [CHR 0xC2, CHR 0xA0])) = Some 3541"
  "parseBaselineTimeToSec (Some ''  '') = None"
  "parseBaselineTimeToSec (Some ''28'') = Some 1680"
  "parseBaselineTimeToSec (Some ''150119987579016:33'') = Some 9007199254740992"
  by (simp_all add: eval_parse)

lemma toFixedTrim_510: "toFixedTrim 510 2 = ''510''"
  by (simp add: eval_str)

lemma toFixedTrim_51: "toFixedTrim 51 1 = ''51''"
  by (simp add: eval_str)

lemma toFixedTrim_1: "toFixedTrim 1 1 = ''1''"
  by (simp add: eval_str)

lemma parsePace_pace6: "parsePaceToSeconds (Some pace6) = 360"
  by (simp add: eval_parse pace6_def)

lemma parsePace_colon: "parsePaceToSeconds (Some ''6:00'') = 0"
  by (simp add: eval_parse)

lemma start_date_run_rec: "start_date (run_rec i ms d t) = Some ms"
  by (simp add: run_rec_def raw_run_def minimizeActivity_def)

lemma run_rec_fields:
  "isRun (run_rec i ms d t)" "distance_m (run_rec i ms d t) = Some d"
  "moving_time_s (run_rec i ms d t) = Some t" "aid (run_rec i ms d t) = Some i"
  "\<not> isRide (run_rec i ms d t)"
  by (simp_all add: run_rec_def raw_run_def minimizeActivity_def isRun_def isRide_def
      asSportType_def strOr_def blank_raw_def)

subsection \<open>The cache merge\<close>


lemma map_set_keys:
  "map fst (map_set m k v) = (if k \<in> set (map fst m) then map fst m else map fst m @ [k])"
  by (induction m) auto

lemma map_of_map_set: "map_of (map_set m k v) = (map_of m)(k \<mapsto> v)"
  by (induction m) (auto simp: fun_eq_iff)

lemma distinct_map_set: "distinct (map fst m) \<Longrightarrow> distinct (map fst (map_set m k v))"
  by (simp add: map_set_keys)

lemma set_map_set: "set (map_set m k v) \<subseteq> insert (k, v) (set m)"
  by (induction m) auto

lemma key_ok_map_set: "key_ok m \<Longrightarrow> aid v = k \<Longrightarrow> key_ok (map_set m k v)"
  by (induction m) (auto simp: key_ok_def)

lemma distinct_set_cached: "distinct (map fst m) \<Longrightarrow> distinct (map fst (set_cached c m))"
  unfolding set_cached_def by (induction c arbitrary: m) (auto simp: distinct_map_set)

lemma distinct_set_fresh: "distinct (map fst m) \<Longrightarrow> distinct (map fst (set_fresh f m))"
  unfolding set_fresh_def by (induction f arbitrary: m) (auto simp: distinct_map_set)

lemma key_ok_set_cached: "key_ok m \<Longrightarrow> key_ok (set_cached c m)"
  unfolding set_cached_def by (induction c arbitrary: m) (auto simp: key_ok_map_set)

lemma aid_minimizeActivity: "aid (minimizeActivity r) = raw_id r"
  by (simp add: minimizeActivity_def)

lemma key_ok_set_fresh: "key_ok m \<Longrightarrow> key_ok (set_fresh f m)"
  unfolding set_fresh_def
  by (induction f arbitrary: m) (auto simp: key_ok_map_set aid_minimizeActivity)

lemma find_snoc:
  "find P (xs @ [x]) = (case find P xs of Some y \<Rightarrow> Some y | None \<Rightarrow> if P x then Some x else None)"
  by (induction xs) auto

lemma map_of_set_cached:
  "map_of (set_cached c m) k =
     (case find (\<lambda>x. aid x = k) (rev c) of Some x \<Rightarrow> Some x | None \<Rightarrow> map_of m k)"
  unfolding set_cached_def
  by (induction c arbitrary: m) (auto simp: find_snoc map_of_map_set split: option.splits)

lemma map_of_set_fresh:
  "map_of (set_fresh f m) k =
     (case find (\<lambda>r. raw_id r = k) (rev f) of
        Some r \<Rightarrow> Some (minimizeActivity r) | None \<Rightarrow> map_of m k)"
  unfolding set_fresh_def
  by (induction f arbitrary: m) (auto simp: find_snoc map_of_map_set split: option.splits)

lemma keys_map_set: "fst ` set (map_set m k v) = insert k (fst ` set m)"
  by (induction m) auto

lemma keys_set_cached: "fst ` set (set_cached c m) = fst ` set m \<union> aid ` set c"
  unfolding set_cached_def
  by (induction c arbitrary: m) (simp_all add: keys_map_set)

lemma keys_set_fresh: "fst ` set (set_fresh f m) = fst ` set m \<union> raw_id ` set f"
  unfolding set_fresh_def
  by (induction f arbitrary: m) (simp_all add: keys_map_set)

lemma keys_set_fresh_ext:
  "\<exists>extra. map fst (set_fresh f m) = map fst m @ extra \<and> set extra \<subseteq> raw_id ` set f - set (map fst m)"
  unfolding set_fresh_def
proof (induction f arbitrary: m)
  case Nil
  then show ?case by simp
next
  case (Cons r f)
  obtain extra where e: "map fst (fold (\<lambda>a m. map_set m (raw_id a) (minimizeActivity a)) f (map_set m (raw_id r) (minimizeActivity r)))
      = map fst (map_set m (raw_id r) (minimizeActivity r)) @ extra"
     "set extra \<subseteq> raw_id ` set f - set (map fst (map_set m (raw_id r) (minimizeActivity r)))"
    using Cons.IH by blast
  show ?case
  proof (cases "raw_id r \<in> set (map fst m)")
    case True
    with e show ?thesis by (auto simp: map_set_keys)
  next
    case False
    with e have "map fst (fold (\<lambda>a m. map_set m (raw_id a) (minimizeActivity a)) (r # f) m) = map fst m @ (raw_id r # extra)"
      by (simp add: map_set_keys)
    moreover from e False have "set (raw_id r # extra) \<subseteq> raw_id ` set (r # f) - set (map fst m)"
      by (auto simp: map_set_keys)
    ultimately show ?thesis by blast
  qed
qed

lemma set_cached_distinct_append:
  "distinct (map aid xs) \<Longrightarrow> aid ` set xs \<inter> set (map fst m) = {} \<Longrightarrow>
   set_cached xs m = m @ map (\<lambda>a. (aid a, a)) xs"
  unfolding set_cached_def
proof (induction xs arbitrary: m)
  case Nil
  then show ?case by simp
next
  case (Cons a xs)
  have ms: "map_set m (aid a) a = m @ [(aid a, a)]"
    using Cons.prems(2) by (induction m) auto
  have "aid ` set xs \<inter> set (map fst (m @ [(aid a, a)])) = {}"
    using Cons.prems by auto
  then show ?case using Cons.IH[of "m @ [(aid a, a)]"] Cons.prems(1) ms by simp
qed

lemma alist_eqI:
  "map fst xs = map fst ys \<Longrightarrow> distinct (map fst xs) \<Longrightarrow> map_of xs = map_of ys \<Longrightarrow> xs = ys"
proof (induction xs arbitrary: ys)
  case Nil
  then show ?case by simp
next
  case (Cons x xs)
  then obtain y ys' where ys: "ys = y # ys'" by (cases ys) auto
  with Cons.prems have k: "fst x = fst y" and ks: "map fst xs = map fst ys'" by auto
  from Cons.prems(3) ys have eq: "\<And>j. map_of (x # xs) j = map_of (y # ys') j" by (simp only:)
  from eq[of "fst x"] k have v: "snd x = snd y" by simp
  have "map_of xs = map_of ys'"
  proof
    fix k'
    show "map_of xs k' = map_of ys' k'"
    proof (cases "k' = fst x")
      case True
      with Cons.prems(2) have "map_of xs k' = None" by (auto simp: map_of_eq_None_iff)
      moreover from True Cons.prems(2) ks have "map_of ys' k' = None"
        by (metis distinct.simps(2) list.simps(9) map_of_eq_None_iff set_map)
      ultimately show ?thesis by simp
    next
      case False
      from eq[of k'] False k show ?thesis by simp
    qed
  qed
  with Cons.IH[of ys'] ks Cons.prems(2) have "xs = ys'" by simp
  with k v ys show ?case by (cases x; cases y) auto
qed

lemma map_of_filter_key:
  "map_of (filter (\<lambda>p. P (fst p)) xs) k = (if P k then map_of xs k else None)"
  by (induction xs) auto


lemma merge_alt:
  "merge c f = sort_key (\<lambda>a. - getTime a) (map snd (filter (\<lambda>p. truthy (fst p)) (merged_map c f)))"
proof -
  have ok: "key_ok (merged_map c f)"
    unfolding merged_map_def by (intro key_ok_set_fresh key_ok_set_cached) (simp add: key_ok_def)
  have "filter (\<lambda>a. truthy (aid a)) (map snd m) = map snd (filter (\<lambda>p. truthy (fst p)) m)"
    if "key_ok m" for m
    using that by (induction m) (auto simp: key_ok_def)
  with ok show ?thesis by (simp add: merge_def merged_map_def Let_def)
qed

lemma distinct_merged_map: "distinct (map fst (merged_map c f))"
  unfolding merged_map_def by (intro distinct_set_fresh distinct_set_cached) simp

lemma key_ok_merged_map: "key_ok (merged_map c f)"
  unfolding merged_map_def by (intro key_ok_set_fresh key_ok_set_cached) (simp add: key_ok_def)

lemma map_of_merged_map:
  "map_of (merged_map c f) k =
     (case find (\<lambda>r. raw_id r = k) (rev f) of
        Some r \<Rightarrow> Some (minimizeActivity r)
      | None \<Rightarrow> find (\<lambda>x. aid x = k) (rev c))"
  unfolding merged_map_def
  by (simp add: map_of_set_fresh map_of_set_cached split: option.splits)

lemma keys_merged_map: "fst ` set (merged_map c f) = aid ` set c \<union> raw_id ` set f"
  unfolding merged_map_def by (simp add: keys_set_fresh keys_set_cached)

lemma set_merge: "set (merge c f) = snd ` {p \<in> set (merged_map c f). truthy (fst p)}"
  by (auto simp: merge_alt)

lemma in_merge_iff:
  "a \<in> set (merge c f) \<longleftrightarrow> truthy (aid a) \<and> map_of (merged_map c f) (aid a) = Some a"
proof
  assume "a \<in> set (merge c f)"
  then obtain k where p: "(k, a) \<in> set (merged_map c f)" "truthy k"
    by (auto simp: set_merge)
  with key_ok_merged_map[of c f] have "aid a = k"
    by (auto simp: key_ok_def list_all_iff)
  with p distinct_merged_map[of c f] show "truthy (aid a) \<and> map_of (merged_map c f) (aid a) = Some a"
    by simp
next
  assume "truthy (aid a) \<and> map_of (merged_map c f) (aid a) = Some a"
  then have "(aid a, a) \<in> set (merged_map c f)" "truthy (aid a)"
    by (auto dest: map_of_SomeD)
  then show "a \<in> set (merge c f)" by (force simp: set_merge)
qed

lemma distinct_merge: "distinct (map aid (merge c f))"
proof -
  let ?m = "filter (\<lambda>p. truthy (fst p)) (merged_map c f)"
  have "map aid (map snd ?m) = map fst ?m"
    using key_ok_merged_map[of c f] by (auto simp: key_ok_def list_all_iff)
  moreover have "distinct (map fst ?m)"
    using distinct_merged_map[of c f] by (rule distinct_map_filter)
  ultimately have d: "distinct (map aid (map snd ?m))" by (simp only:)
  have "distinct (map aid (sort_key g xs)) = distinct (map aid xs)" for g :: "activity \<Rightarrow> int" and xs
    by (simp add: distinct_map)
  with d show ?thesis by (simp only: merge_alt)
qed

lemma sorted_merge: "sorted_wrt (\<lambda>a b. getTime b \<le> getTime a) (merge c f)"
proof -
  have "sorted (map (\<lambda>a. - getTime a) (merge c f))"
    unfolding merge_alt by (rule sorted_sort_key)
  then show ?thesis by (simp add: sorted_map)
qed

lemma ids_merge: "aid ` set (merge c f) = {k \<in> aid ` set c \<union> raw_id ` set f. truthy k}"
proof -
  have "aid ` set (merge c f) = fst ` {p \<in> set (merged_map c f). truthy (fst p)}"
    using key_ok_merged_map[of c f] by (force simp: set_merge key_ok_def list_all_iff)
  also have "\<dots> = {k \<in> fst ` set (merged_map c f). truthy k}" by auto
  finally show ?thesis by (simp add: keys_merged_map)
qed

lemma find_SomeD: "find P xs = Some x \<Longrightarrow> x \<in> set xs \<and> P x"
  by (induction xs) (auto split: if_splits)

lemma merge_of_wellformed:
  assumes d: "distinct (map aid M)" and t: "\<forall>a \<in> set M. truthy (aid a)"
    and cover: "\<forall>r \<in> set f. truthy (raw_id r) \<longrightarrow> raw_id r \<in> aid ` set M"
    and same: "\<forall>a \<in> set M. \<forall>r. find (\<lambda>r. raw_id r = aid a) (rev f) = Some r \<longrightarrow> a = minimizeActivity r"
  shows "merge M f = sort_key (\<lambda>a. - getTime a) M"
proof -
  let ?m1 = "map (\<lambda>a. (aid a, a)) M"
  have m1: "set_cached M [] = ?m1"
    using set_cached_distinct_append[of M "[]"] d by simp
  have k1: "map fst ?m1 = map aid M" by (simp add: comp_def)
  let ?m2 = "merged_map M f"
  let ?flt = "filter (\<lambda>p. truthy (fst p)) ?m2"
  obtain extra where ex: "map fst ?m2 = map fst ?m1 @ extra"
      "set extra \<subseteq> raw_id ` set f - set (map fst ?m1)"
    using keys_set_fresh_ext[of f ?m1] m1 by (auto simp: merged_map_def)
  have "filter truthy extra = []"
    using ex(2) cover by (auto simp: filter_empty_conv k1)
  moreover have "filter truthy (map aid M) = map aid M"
    using t by (simp add: filter_id_conv)
  moreover have "map fst ?flt = filter truthy (map fst ?m2)"
    by (simp add: filter_map comp_def)
  ultimately have keys: "map fst ?flt = map fst ?m1"
    using ex(1) by (simp only: k1 filter_append append_Nil2)
  have dist: "distinct (map fst ?flt)"
    unfolding keys k1 by (rule d)
  have mo: "map_of ?flt = map_of ?m1"
  proof
    fix k
    show "map_of ?flt k = map_of ?m1 k"
    proof (cases "truthy k")
      case False
      then have "k \<notin> aid ` set M" using t by auto
      then have "map_of ?m1 k = None" by (simp add: map_of_eq_None_iff image_image)
      with False show ?thesis by (simp add: map_of_filter_key)
    next
      case True
      have m2k: "map_of ?m2 k = (case find (\<lambda>r. raw_id r = k) (rev f) of
                   Some r \<Rightarrow> Some (minimizeActivity r) | None \<Rightarrow> map_of ?m1 k)"
        unfolding merged_map_def m1 by (rule map_of_set_fresh)
      show ?thesis
      proof (cases "find (\<lambda>r. raw_id r = k) (rev f)")
        case None
        with True m2k show ?thesis by (simp add: map_of_filter_key)
      next
        case (Some r)
        then have rk: "raw_id r = k" and rin: "r \<in> set f"
          using find_SomeD[of "\<lambda>r. raw_id r = k" "rev f" r] by auto
        with True cover obtain a where a: "a \<in> set M" "aid a = k" by force
        with same Some have "a = minimizeActivity r" by blast
        moreover from a d have "map_of ?m1 k = Some a"
          by (intro map_of_is_SomeI) (auto simp: comp_def)
        ultimately show ?thesis using True m2k Some by (simp add: map_of_filter_key)
      qed
    qed
  qed
  have "?flt = ?m1" by (rule alist_eqI[OF keys dist mo])
  then show ?thesis by (simp add: merge_alt comp_def)
qed

text \<open>
  Claim C6. For every cache and every fetched list, the merged list has no two records
  with one identifier, every identifier in it is truthy, a record whose identifier was
  fetched is exactly the minimised form of the last fetched activity with that identifier
  (otherwise it is the last cached record with it), every truthy identifier of either
  input is kept, and the list is in descending order of the start instant.
\<close>

theorem merge_invariant:
  "distinct (map aid (merge c f)) \<and>
   (\<forall>a \<in> set (merge c f). truthy (aid a)) \<and>
   (\<forall>a \<in> set (merge c f).
      case find (\<lambda>r. raw_id r = aid a) (rev f) of
        Some r \<Rightarrow> a = minimizeActivity r
      | None \<Rightarrow> find (\<lambda>x. aid x = aid a) (rev c) = Some a) \<and>
   aid ` set (merge c f) = {k \<in> aid ` set c \<union> raw_id ` set f. truthy k} \<and>
   sorted_wrt (\<lambda>a b. getTime b \<le> getTime a) (merge c f)"
proof (intro conjI ballI)
  show "distinct (map aid (merge c f))" by (rule distinct_merge)
next
  fix a assume "a \<in> set (merge c f)"
  then show "truthy (aid a)" by (simp add: in_merge_iff)
next
  fix a assume "a \<in> set (merge c f)"
  then have "map_of (merged_map c f) (aid a) = Some a" by (simp add: in_merge_iff)
  then show "case find (\<lambda>r. raw_id r = aid a) (rev f) of
        Some r \<Rightarrow> a = minimizeActivity r
      | None \<Rightarrow> find (\<lambda>x. aid x = aid a) (rev c) = Some a"
    by (simp add: map_of_merged_map split: option.splits)
next
  show "aid ` set (merge c f) = {k \<in> aid ` set c \<union> raw_id ` set f. truthy k}" by (rule ids_merge)
next
  show "sorted_wrt (\<lambda>a b. getTime b \<le> getTime a) (merge c f)" by (rule sorted_merge)
qed

lemma merge_example:
  "merge ex_cache ex_fresh = [run_rec 2 3000 5000 1500, run_rec 3 2000 1 1, run_rec 1 1000 10000 3600]"
  by code_simp

theorem merge_invariant_witness:
  "run_rec 1 1000 10000 3600 \<in> set (merge ex_cache ex_fresh) \<and>
   truthy (aid (run_rec 1 1000 10000 3600)) \<and>
   find (\<lambda>r. raw_id r = aid (run_rec 1 1000 10000 3600)) (rev ex_fresh)
     = Some (raw_run 1 1000 10000 3600) \<and>
   run_rec 1 1000 10000 3600 = minimizeActivity (raw_run 1 1000 10000 3600) \<and>
   distinct (map aid (merge ex_cache ex_fresh)) \<and>
   sorted_wrt (\<lambda>a b. getTime b \<le> getTime a) (merge ex_cache ex_fresh)"
proof -
  have mem: "run_rec 1 1000 10000 3600 \<in> set (merge ex_cache ex_fresh)"
    by (simp add: merge_example)
  have fnd: "find (\<lambda>r. raw_id r = aid (run_rec 1 1000 10000 3600)) (rev ex_fresh)
     = Some (raw_run 1 1000 10000 3600)"
    by (simp add: ex_fresh_def run_rec_def raw_run_def aid_minimizeActivity)
  from merge_invariant[of ex_cache ex_fresh] mem
  have "truthy (aid (run_rec 1 1000 10000 3600))"
    and "case find (\<lambda>r. raw_id r = aid (run_rec 1 1000 10000 3600)) (rev ex_fresh) of
           Some r \<Rightarrow> run_rec 1 1000 10000 3600 = minimizeActivity r
         | None \<Rightarrow> find (\<lambda>x. aid x = aid (run_rec 1 1000 10000 3600)) (rev ex_cache)
                     = Some (run_rec 1 1000 10000 3600)"
    and "distinct (map aid (merge ex_cache ex_fresh))"
    and "sorted_wrt (\<lambda>a b. getTime b \<le> getTime a) (merge ex_cache ex_fresh)"
    by blast+
  with mem fnd show ?thesis by simp
qed

text \<open>
  Claim C5, as amended. Merging is idempotent: for every cache and every fetched list,
  merging the same fetched list again into the result gives the result, and merging the
  empty list into a result gives it back. Merging the empty list into a cache whose
  records have distinct truthy identifiers only sorts it.
\<close>

theorem merge_idempotent:
  "merge (merge c f) f = merge c f \<and>
   merge (merge c f) [] = merge c f \<and>
   (distinct (map aid c) \<and> (\<forall>a \<in> set c. truthy (aid a))
      \<longrightarrow> merge c [] = sort_key (\<lambda>a. - getTime a) c)"
proof (intro conjI impI)
  let ?M = "merge c f"
  have srt: "sort_key (\<lambda>a. - getTime a) ?M = ?M"
    unfolding merge_alt by (intro sort_key_id_if_sorted sorted_sort_key)
  have inv: "distinct (map aid ?M)" "\<forall>a \<in> set ?M. truthy (aid a)"
    by (simp_all add: distinct_merge in_merge_iff)
  have cover: "\<forall>r \<in> set f. truthy (raw_id r) \<longrightarrow> raw_id r \<in> aid ` set ?M"
    by (auto simp: ids_merge)
  have same: "\<forall>a \<in> set ?M. \<forall>r. find (\<lambda>r. raw_id r = aid a) (rev f) = Some r \<longrightarrow> a = minimizeActivity r"
    by (auto simp: in_merge_iff map_of_merged_map)
  show "merge ?M f = ?M"
    using merge_of_wellformed[OF inv cover same] srt by simp
  show "merge ?M [] = ?M"
    using merge_of_wellformed[OF inv, of "[]"] srt by simp
next
  assume "distinct (map aid c) \<and> (\<forall>a \<in> set c. truthy (aid a))"
  then show "merge c [] = sort_key (\<lambda>a. - getTime a) c"
    using merge_of_wellformed[of c "[]"] by simp
qed

theorem merge_idempotent_witness:
  "distinct (map aid ex_cache) \<and>
   truthy (aid (run_rec 1 1000 5000 1500)) \<and> truthy (aid (run_rec 2 3000 5000 1500)) \<and>
   merge ex_cache [] = sort_key (\<lambda>a. - getTime a) ex_cache \<and>
   merge (merge ex_cache ex_fresh) ex_fresh = merge ex_cache ex_fresh \<and>
   merge (merge ex_cache ex_fresh) [] = merge ex_cache ex_fresh"
proof -
  have h: "distinct (map aid ex_cache) \<and> (\<forall>a \<in> set ex_cache. truthy (aid a))"
    by (simp add: ex_cache_def run_rec_def raw_run_def aid_minimizeActivity truthy_def)
  with merge_idempotent[of ex_cache ex_fresh] show ?thesis
    by (simp add: ex_cache_def)
qed

text \<open>
  A cache with two records of one identifier and a record whose identifier is 0: merging
  the empty list into it keeps the later record of the identifier alone, where sorting
  keeps all three.
\<close>

theorem merge_duplicate_counterexample:
  "merge [run_rec 2 1000 5000 1500, run_rec 2 3000 10000 3600, run_rec 0 2000 5000 1500] []
     = [run_rec 2 3000 10000 3600] \<and>
   sort_key (\<lambda>a. - getTime a)
       [run_rec 2 1000 5000 1500, run_rec 2 3000 10000 3600, run_rec 0 2000 5000 1500]
     = [run_rec 2 3000 10000 3600, run_rec 0 2000 5000 1500, run_rec 2 1000 5000 1500] \<and>
   merge [run_rec 2 1000 5000 1500, run_rec 2 3000 10000 3600, run_rec 0 2000 5000 1500] []
     \<noteq> sort_key (\<lambda>a. - getTime a)
         [run_rec 2 1000 5000 1500, run_rec 2 3000 10000 3600, run_rec 0 2000 5000 1500]"
  by code_simp

subsection \<open>The next sync point\<close>

text \<open>
  Claim C4, as amended. With no merged record the sync point stays at the value read
  from the state. With a newest record that has no start date, or whose whole epoch
  second is not positive, it stays as well. Otherwise it is the newest whole epoch second
  minus 60, never below 0: it does not exceed the newest epoch second, and it is that
  second minus 60 as soon as the second is at least 60.
\<close>

theorem nextAfterEpoch_guarded:
  "nextAfterEpoch [] w = w \<and>
   (start_date a = None \<longrightarrow> nextAfterEpoch (a # rest) w = w) \<and>
   (start_date a = Some ms \<and> ms div 1000 \<le> 0 \<longrightarrow> nextAfterEpoch (a # rest) w = w) \<and>
   (start_date a = Some ms \<and> 0 < ms div 1000 \<longrightarrow>
      nextAfterEpoch (a # rest) w = max 0 (ms div 1000 - 60) \<and>
      nextAfterEpoch (a # rest) w \<le> ms div 1000) \<and>
   (start_date a = Some ms \<and> 60 \<le> ms div 1000 \<longrightarrow>
      nextAfterEpoch (a # rest) w = ms div 1000 - 60)"
  by (auto simp: nextAfterEpoch_def newestEpoch_def)

theorem nextAfterEpoch_counterexample:
  "nextAfterEpoch [run_rec 1 30000 5000 1500] 1000 = 0 \<and>
   nextAfterEpoch [run_rec 1 30000 5000 1500] 1000 \<noteq> 30000 div 1000 - 60 \<and>
   nextAfterEpoch [run_rec 1 0 5000 1500] 1000 = 1000 \<and>
   \<not> nextAfterEpoch [run_rec 1 0 5000 1500] 1000 \<le> 0 div 1000"
  by (simp add: nextAfterEpoch_def newestEpoch_def start_date_run_rec)

theorem nextAfterEpoch_guarded_witness:
  "nextAfterEpoch [] 1000 = 1000 \<and>
   start_date (run_rec 1 1700000000123 5000 1500) = Some 1700000000123 \<and>
   nextAfterEpoch [run_rec 1 1700000000123 5000 1500] 1000 = 1699999940 \<and>
   nextAfterEpoch [run_rec 1 1700000000123 5000 1500] 1000 \<le> 1700000000"
  using nextAfterEpoch_guarded[where w = 1000 and a = "run_rec 1 1700000000123 5000 1500"
      and ms = 1700000000123 and rest = "[]"]
  by (simp add: start_date_run_rec)

subsection \<open>The running totals\<close>

lemma running_totals_general:
  assumes "running b = Some rb" and "totalDistanceKm rb = Some 500"
    and "statsAllRun athleteStats = None"
    and "isRun a" and "distance_m a = Some 10000" and "moving_time_s a = Some 3600"
  shows "runDistanceKm b [a] athleteStats = 510 \<and>
         running_totalDistance_value (computeSportsStats cal b [a] athleteStats) = ''510'' \<and>
         (avgPaceText rb = Some pace6 \<longrightarrow>
            baselineTimeH b = 50 \<and> runTimeH b [a] athleteStats = 51 \<and>
            running_totalTime_value (computeSportsStats cal b [a] athleteStats) = ''51'') \<and>
         (avgPaceText rb = Some ''6:00'' \<longrightarrow>
            baselineTimeH b = 0 \<and> runTimeH b [a] athleteStats = 1 \<and>
            running_totalTime_value (computeSportsStats cal b [a] athleteStats) = ''1'')"
proof -
  have d: "runDistanceKm b [a] athleteStats = 510"
    using assms by (simp add: runDistanceKm_def baselineDistanceKm_def sum_pick_def numOr0_def)
  have t: "runTimeH b [a] athleteStats = baselineTimeH b + 1"
    using assms by (simp add: runTimeH_def sum_pick_def numOr0_def)
  have b6: "baselineTimeH b = 50" if "avgPaceText rb = Some pace6"
    using assms that by (simp add: baselineTimeH_def baselineDistanceKm_def baselinePaceSec_def parsePace_pace6 numOr0_def)
  have bc: "baselineTimeH b = 0" if "avgPaceText rb = Some ''6:00''"
    using assms that by (simp add: baselineTimeH_def baselineDistanceKm_def baselinePaceSec_def parsePace_colon numOr0_def)
  have cd: "running_totalDistance_value (computeSportsStats cal b [a] athleteStats)
              = toFixedTrim (runDistanceKm b [a] athleteStats) 2"
    and ct: "running_totalTime_value (computeSportsStats cal b [a] athleteStats)
              = toFixedTrim (runTimeH b [a] athleteStats) 1"
    by (simp_all add: computeSportsStats_def)
  have "running_totalDistance_value (computeSportsStats cal b [a] athleteStats) = ''510''"
    by (simp only: cd d toFixedTrim_510)
  moreover have "runTimeH b [a] athleteStats = 51 \<and>
      running_totalTime_value (computeSportsStats cal b [a] athleteStats) = ''51''"
    if "avgPaceText rb = Some pace6"
  proof -
    have "runTimeH b [a] athleteStats = 51" using t b6[OF that] by simp
    then show ?thesis by (simp only: ct toFixedTrim_51)
  qed
  moreover have "runTimeH b [a] athleteStats = 1 \<and>
      running_totalTime_value (computeSportsStats cal b [a] athleteStats) = ''1''"
    if "avgPaceText rb = Some ''6:00''"
  proof -
    have "runTimeH b [a] athleteStats = 1" using t bc[OF that] by simp
    then show ?thesis by (simp only: ct toFixedTrim_1)
  qed
  ultimately show ?thesis using d b6 bc by blast
qed

text \<open>
  Claim C1, as amended. Baseline 500 km, no lifetime running totals, one local running
  record of 10 km and 3600 s: the distance total is 510 and its card reads \<open>510\<close>.
  With the pace text \<open>6'00''/km\<close> the baseline contributes 50 h, the time total is 51 and
  its card reads \<open>51\<close>; with the pace text \<open>6:00\<close> the pace parser finds no match, the
  baseline contributes nothing, the time total is 1 and its card reads \<open>1\<close>.
\<close>

theorem running_totals_scenario:
  assumes "running b = Some rb" and "totalDistanceKm rb = Some 500"
    and "statsAllRun athleteStats = None"
    and "isRun a" and "distance_m a = Some 10000" and "moving_time_s a = Some 3600"
  shows "runDistanceKm b [a] athleteStats = 510 \<and>
         running_totalDistance_value (computeSportsStats cal b [a] athleteStats) = ''510'' \<and>
         (avgPaceText rb = Some pace6 \<longrightarrow>
            baselineTimeH b = 50 \<and> runTimeH b [a] athleteStats = 51 \<and>
            running_totalTime_value (computeSportsStats cal b [a] athleteStats) = ''51'') \<and>
         (avgPaceText rb = Some ''6:00'' \<longrightarrow>
            baselineTimeH b = 0 \<and> runTimeH b [a] athleteStats = 1 \<and>
            running_totalTime_value (computeSportsStats cal b [a] athleteStats) = ''1'')"
  using assms by (rule running_totals_general)

theorem running_totals_scenario_witness:
  "running (baseline500 pace6) = Some \<lparr> totalDistanceKm = Some 500, avgPaceText = Some pace6, best = None \<rparr> \<and>
   statsAllRun None = None \<and>
   isRun (run_rec 1 0 10000 3600) \<and>
   runDistanceKm (baseline500 pace6) [run_rec 1 0 10000 3600] None = 510 \<and>
   baselineTimeH (baseline500 pace6) = 50 \<and>
   runTimeH (baseline500 pace6) [run_rec 1 0 10000 3600] None = 51 \<and>
   running_totalDistance_value
     (computeSportsStats cal0 (baseline500 pace6) [run_rec 1 0 10000 3600] None) = ''510'' \<and>
   running_totalTime_value
     (computeSportsStats cal0 (baseline500 pace6) [run_rec 1 0 10000 3600] None) = ''51''"
  using running_totals_scenario[where b = "baseline500 pace6"
      and rb = "\<lparr> totalDistanceKm = Some 500, avgPaceText = Some pace6, best = None \<rparr>"
      and athleteStats = None and a = "run_rec 1 0 10000 3600" and cal = cal0]
  by (simp add: baseline500_def statsAllRun_def run_rec_fields)

text \<open>The scenario as the claim words it, with the pace text \<open>6:00\<close>: the time card reads
  \<open>1\<close>, not \<open>51.0\<close>, and the distance card reads \<open>510\<close>.\<close>

theorem running_totals_colon_counterexample:
  "baselineTimeH (baseline500 ''6:00'') = 0 \<and>
   runTimeH (baseline500 ''6:00'') [run_rec 1 0 10000 3600] None = 1 \<and>
   runTimeH (baseline500 ''6:00'') [run_rec 1 0 10000 3600] None \<noteq> 51 \<and>
   running_totalTime_value
     (computeSportsStats cal0 (baseline500 ''6:00'') [run_rec 1 0 10000 3600] None) = ''1'' \<and>
   running_totalTime_value
     (computeSportsStats cal0 (baseline500 ''6:00'') [run_rec 1 0 10000 3600] None) \<noteq> ''51.0''"
  using running_totals_general[where b = "baseline500 ''6:00''"
      and rb = "\<lparr> totalDistanceKm = Some 500, avgPaceText = Some ''6:00'', best = None \<rparr>"
      and athleteStats = None and a = "run_rec 1 0 10000 3600" and cal = cal0]
  by (simp add: baseline500_def statsAllRun_def run_rec_fields)

subsection \<open>The farthest run\<close>





lemma best_ok_mono: "best_ok S acc \<Longrightarrow> S \<subseteq> S' \<Longrightarrow> best_ok S' acc"
  by (auto simp: best_ok_def split: option.splits)









lemma kmOf_examples:
  "kmOf (run_rec i ms 21100 t) = dbl (211 / 10)"
  "kmOf (run_rec i ms 25000 t) = 25"
  "kmOf (run_rec i ms 5000 t) = 5"
  "kmOf (run_rec i ms 5050 t) = dbl (505 / 100)"
  "kmOf (run_rec i ms 10000 t) = 10"
  by (simp_all add: kmOf_def run_rec_fields numOr0_def eval_dbl)

lemma timeOf_examples:
  "timeOf (run_rec i ms d 0) = 0"
  "timeOf (run_rec i ms d 1500) = 1500"
  "timeOf (run_rec i ms d 1600) = 1600"
  "timeOf (run_rec i ms d 3600) = 3600"
  by (simp_all add: timeOf_def run_rec_fields numOr0_def eval_dbl)



text \<open>
  The comparison is between the doubles the script computes. A run of 10000.2 m is
  10.000200000000001 km, which is greater than a baseline of 10.0002 km, and a run of
  21600 m in 9450 s has a pace of 437.49999999999994 s, printed as 7 min 17 s.
\<close>

lemma farthest_null_texts:
  "farthestSubtext cal
     \<lparr> running = Some \<lparr> totalDistanceKm = None, avgPaceText = None,
         best = Some \<lparr> farthest = Some \<lparr> distanceKm = Some 21, paceText = JNull,
                                          dateText = Missing \<rparr>,
                       best5k = None, best10k = None \<rparr> \<rparr> \<rparr> []
     = Some ''null @undefined''"
  by (simp add: farthestSubtext_def farthestPromoted_def bestRun_def baselineFarthest_def tmpl_def)

lemma farthest_double_examples:
  "dbl (100002 / 10000) < kmOf (run_rec i ms (100002 / 10) t)"
  "formatPaceSecPerKm (perKm (timeOf (run_rec i ms 21600 9450)) (kmOf (run_rec i ms 21600 9450)))
     = Some (''7'' @ [apos] @ ''17'' @ [apos, apos] @ ''/km'')"
  by (simp_all add: kmOf_def timeOf_def perKm_def clamp_def formatPaceSecPerKm_def
      run_rec_fields numOr0_def eval_dbl eval_str)


subsection \<open>The best 5 km and 10 km\<close>

lemma cand_ok_step: "cand_ok T tol S acc \<Longrightarrow> cand_ok T tol (insert a S) (best_step T tol acc a)"
  by (cases acc) (auto simp: cand_ok_def best_step_def Let_def)

lemma cand_ok_foldl:
  "cand_ok T tol S acc \<Longrightarrow> cand_ok T tol (S \<union> set xs) (foldl (best_step T tol) acc xs)"
proof (induction xs arbitrary: acc S)
  case Nil
  then show ?case by simp
next
  case (Cons x xs)
  from Cons.IH[OF cand_ok_step[OF Cons.prems, of x]] show ?case by simp
qed

lemma cand_ok_findBest: "cand_ok T tol (set (filter isRun acts)) (findBestForDistance acts T tol)"
  using cand_ok_foldl[of T tol "{}" None "filter isRun acts"]
  by (simp add: findBestForDistance_def cand_ok_def)

lemma eligible_iff:
  "a \<in> set acts \<and> eligible T tol a \<longleftrightarrow>
   a \<in> set (filter isRun acts) \<and> \<bar>dbl (kmOf a - T)\<bar> \<le> tol \<and> 0 < timeOf a"
  by (auto simp: eligible_def)

lemma findBest_None_iff:
  "findBestForDistance acts T tol = None \<longleftrightarrow> \<not> (\<exists>c. fastest T tol acts c)"
proof
  assume n: "findBestForDistance acts T tol = None"
  with cand_ok_findBest[of T tol acts]
  have "\<forall>a \<in> set (filter isRun acts). \<not> (\<bar>dbl (kmOf a - T)\<bar> \<le> tol \<and> 0 < timeOf a)"
    by (simp add: cand_ok_def)
  then show "\<not> (\<exists>c. fastest T tol acts c)"
    by (auto simp: fastest_def eligible_def)
next
  assume nf: "\<not> (\<exists>c. fastest T tol acts c)"
  show "findBestForDistance acts T tol = None"
  proof (cases "findBestForDistance acts T tol")
    case None
    then show ?thesis .
  next
    case (Some c)
    with cand_ok_findBest[of T tol acts] have "fastest T tol acts (cand c)"
      by (auto simp: cand_ok_def fastest_def eligible_def list_all_iff)
    with nf show ?thesis by blast
  qed
qed

lemma findBest_Some:
  assumes "findBestForDistance acts T tol = Some c"
  shows "fastest T tol acts (cand c)" and "timeSec c = timeOf (cand c)"
    and "km c = kmOf (cand c)"
    and "paceSecPerKm c = perKm (timeOf (cand c)) (kmOf (cand c))"
    and "fastest T tol acts c' \<Longrightarrow> timeOf c' = timeSec c"
proof -
  from assms cand_ok_findBest[of T tol acts]
  have c: "cand_ok T tol (set (filter isRun acts)) (Some c)" by simp
  then have ok1: "cand c \<in> set (filter isRun acts)" "\<bar>dbl (kmOf (cand c) - T)\<bar> \<le> tol" "0 < timeOf (cand c)"
    and ok4: "timeSec c = timeOf (cand c)" and ok5: "km c = kmOf (cand c)"
    and ok6: "paceSecPerKm c = perKm (timeOf (cand c)) (kmOf (cand c))"
    by (simp_all add: cand_ok_def)
  have ok7all: "\<forall>a \<in> set (filter isRun acts). \<bar>dbl (kmOf a - T)\<bar> \<le> tol \<and> 0 < timeOf a
      \<longrightarrow> timeSec c \<le> timeOf a"
    using c unfolding cand_ok_def option.case by (elim conjE)
  have ok7: "timeSec c \<le> timeOf a"
    if "a \<in> set (filter isRun acts)" "\<bar>dbl (kmOf a - T)\<bar> \<le> tol" "0 < timeOf a" for a
    using ok7all that by blast
  show f: "fastest T tol acts (cand c)"
    using ok1 ok4 ok7 by (auto simp: fastest_def eligible_def list_all_iff)
  show "timeSec c = timeOf (cand c)" "km c = kmOf (cand c)"
    "paceSecPerKm c = perKm (timeOf (cand c)) (kmOf (cand c))"
    using ok4 ok5 ok6 by simp_all
  assume f': "fastest T tol acts c'"
  then have "timeSec c \<le> timeOf c'"
    using ok7[of c'] by (auto simp: fastest_def eligible_def)
  moreover from f' f have "timeOf c' \<le> timeOf (cand c)"
    by (auto simp: fastest_def list_all_iff)
  ultimately show "timeOf c' = timeSec c" using ok4 by simp
qed

lemma pr_replaced:
  assumes "fastest T tol acts c" and "base = Some s" and "timeOf c < of_int s"
  shows "prValue (chosen (findBestForDistance acts T tol) base) bl = formatTimeMinTextFromSec (timeOf c)"
proof -
  from assms(1) obtain c' where c': "findBestForDistance acts T tol = Some c'"
    using findBest_None_iff[of acts T tol] by (cases "findBestForDistance acts T tol") auto
  from findBest_Some(5)[OF c' assms(1)] have "timeOf c = timeSec c'" .
  with c' assms show ?thesis by (simp add: chosen_def prValue_def)
qed

lemma pr_kept:
  assumes "\<forall>c s. fastest T tol acts c \<and> base = Some s \<longrightarrow> of_int s \<le> timeOf c"
  shows "prValue (chosen (findBestForDistance acts T tol) base) bl =
           Some (case Option.bind bl timeText of Some t \<Rightarrow> t | None \<Rightarrow> [])"
    and "prSub cal (chosen (findBestForDistance acts T tol) base) bl =
           (case Option.bind bl time_pr.paceText of Some t \<Rightarrow> t | None \<Rightarrow> [])"
proof -
  have "chosen (findBestForDistance acts T tol) base = None"
  proof (cases "findBestForDistance acts T tol")
    case None
    then show ?thesis by (simp add: chosen_def)
  next
    case (Some c')
    show ?thesis
    proof (cases base)
      case None
      then show ?thesis by (simp add: chosen_def Some)
    next
      case (Some s)
      with assms findBest_Some(1,2)[OF \<open>findBestForDistance acts T tol = Some c'\<close>]
      have "of_int s \<le> timeSec c'" by auto
      with Some \<open>findBestForDistance acts T tol = Some c'\<close> show ?thesis
        by (simp add: chosen_def)
    qed
  qed
  then show "prValue (chosen (findBestForDistance acts T tol) base) bl =
           Some (case Option.bind bl timeText of Some t \<Rightarrow> t | None \<Rightarrow> [])"
    and "prSub cal (chosen (findBestForDistance acts T tol) base) bl =
           (case Option.bind bl time_pr.paceText of Some t \<Rightarrow> t | None \<Rightarrow> [])"
    by (simp_all add: prValue_def prSub_def split: option.splits)
qed

text \<open>
  Claim C8, as amended. For any target and tolerance the search returns nothing exactly
  when no running record within the tolerance has a positive moving time, and otherwise
  a fastest such record; a record is within the tolerance when the difference of its
  kilometres and the target, computed in doubles as the script computes it, is at most
  the tolerance. For 5 km within the double 0.08 and for 10 km within the double 0.12:
  when the time of a fastest record is strictly less than the parsed baseline time, the
  value is that time, formatted; in every other case (no such record, a baseline time that
  does not parse, or a fastest time that is not strictly less) the value and the subtext
  are the baseline's time and pace texts, unchanged.
\<close>

theorem best_5k_10k:
  "(findBestForDistance acts T tol = None \<longleftrightarrow> \<not> (\<exists>c. fastest T tol acts c)) \<and>
   (\<forall>c'. findBestForDistance acts T tol = Some c' \<longrightarrow>
      fastest T tol acts (cand c') \<and> timeSec c' = timeOf (cand c')) \<and>
   (\<forall>c s. fastest 5 (dbl (8 / 100)) acts c \<and>
      parseBaselineTimeToSec (Option.bind (baseline5k b) timeText) = Some s \<and> timeOf c < of_int s
      \<longrightarrow> best5kValue b acts = formatTimeMinTextFromSec (timeOf c)) \<and>
   ((\<forall>c s. fastest 5 (dbl (8 / 100)) acts c \<and>
      parseBaselineTimeToSec (Option.bind (baseline5k b) timeText) = Some s \<longrightarrow> of_int s \<le> timeOf c)
      \<longrightarrow> best5kValue b acts = Some (case Option.bind (baseline5k b) timeText of Some t \<Rightarrow> t | None \<Rightarrow> [])
        \<and> best5kSub cal b acts = (case Option.bind (baseline5k b) time_pr.paceText of Some t \<Rightarrow> t | None \<Rightarrow> [])) \<and>
   (\<forall>c s. fastest 10 (dbl (12 / 100)) acts c \<and>
      parseBaselineTimeToSec (Option.bind (baseline10k b) timeText) = Some s \<and> timeOf c < of_int s
      \<longrightarrow> best10kValue b acts = formatTimeMinTextFromSec (timeOf c)) \<and>
   ((\<forall>c s. fastest 10 (dbl (12 / 100)) acts c \<and>
      parseBaselineTimeToSec (Option.bind (baseline10k b) timeText) = Some s \<longrightarrow> of_int s \<le> timeOf c)
      \<longrightarrow> best10kValue b acts = Some (case Option.bind (baseline10k b) timeText of Some t \<Rightarrow> t | None \<Rightarrow> [])
        \<and> best10kSub cal b acts = (case Option.bind (baseline10k b) time_pr.paceText of Some t \<Rightarrow> t | None \<Rightarrow> []))"
proof (intro conjI allI impI)
  show "findBestForDistance acts T tol = None \<longleftrightarrow> \<not> (\<exists>c. fastest T tol acts c)"
    by (rule findBest_None_iff)
next
  fix c' assume "findBestForDistance acts T tol = Some c'"
  then show "fastest T tol acts (cand c')" "timeSec c' = timeOf (cand c')"
    by (rule findBest_Some)+
next
  fix c s
  assume "fastest 5 (dbl (8 / 100)) acts c \<and>
      parseBaselineTimeToSec (Option.bind (baseline5k b) timeText) = Some s \<and> timeOf c < of_int s"
  then show "best5kValue b acts = formatTimeMinTextFromSec (timeOf c)"
    unfolding best5kValue_def best5kChosen_def by (intro pr_replaced) auto
next
  assume a: "\<forall>c s. fastest 5 (dbl (8 / 100)) acts c \<and>
      parseBaselineTimeToSec (Option.bind (baseline5k b) timeText) = Some s \<longrightarrow> of_int s \<le> timeOf c"
  show "best5kValue b acts = Some (case Option.bind (baseline5k b) timeText of Some t \<Rightarrow> t | None \<Rightarrow> [])"
    unfolding best5kValue_def best5kChosen_def by (rule pr_kept(1)[OF a])
  show "best5kSub cal b acts = (case Option.bind (baseline5k b) time_pr.paceText of Some t \<Rightarrow> t | None \<Rightarrow> [])"
    unfolding best5kSub_def best5kChosen_def by (rule pr_kept(2)[OF a])
next
  fix c s
  assume "fastest 10 (dbl (12 / 100)) acts c \<and>
      parseBaselineTimeToSec (Option.bind (baseline10k b) timeText) = Some s \<and> timeOf c < of_int s"
  then show "best10kValue b acts = formatTimeMinTextFromSec (timeOf c)"
    unfolding best10kValue_def best10kChosen_def by (intro pr_replaced) auto
next
  assume a: "\<forall>c s. fastest 10 (dbl (12 / 100)) acts c \<and>
      parseBaselineTimeToSec (Option.bind (baseline10k b) timeText) = Some s \<longrightarrow> of_int s \<le> timeOf c"
  show "best10kValue b acts = Some (case Option.bind (baseline10k b) timeText of Some t \<Rightarrow> t | None \<Rightarrow> [])"
    unfolding best10kValue_def best10kChosen_def by (rule pr_kept(1)[OF a])
  show "best10kSub cal b acts = (case Option.bind (baseline10k b) time_pr.paceText of Some t \<Rightarrow> t | None \<Rightarrow> [])"
    unfolding best10kSub_def best10kChosen_def by (rule pr_kept(2)[OF a])
qed

lemma baseline_prs_times:
  "parseBaselineTimeToSec (Option.bind (baseline5k baseline_prs) timeText) = Some 1651"
  "parseBaselineTimeToSec (Option.bind (baseline10k baseline_prs) timeText) = Some 3541"
  "Option.bind (baseline10k baseline_prs) timeText = Some ''59:01''"
  by (simp_all add: baseline5k_def baseline10k_def baseline_prs_def eval_parse)

text \<open>
  The tolerance test is made on doubles, as the script makes it: 5.08 - 5 is
  0.08000000000000007 and 5 - 4.92 likewise, both greater than the double 0.08, so that
  runs of 5080 m and of 4920 m are outside the window of 5 km, and one of 5079 m inside.
\<close>

lemma tolerance_double_examples:
  "\<not> eligible 5 (dbl (8 / 100)) (run_rec i ms 5080 1500)"
  "\<not> eligible 5 (dbl (8 / 100)) (run_rec i ms 4920 1500)"
  "eligible 5 (dbl (8 / 100)) (run_rec i ms 5079 1500)"
  "eligible 5 (dbl (8 / 100)) (run_rec i ms 4921 1500)"
  "eligible 10 (dbl (12 / 100)) (run_rec i ms 10120 3600)"
  "eligible 10 (dbl (12 / 100)) (run_rec i ms 9880 3600)"
  unfolding eligible_def
  by (simp_all add: run_rec_fields kmOf_def timeOf_def numOr0_def eval_dbl)

lemma acts8_eligible:
  "eligible 5 (dbl (8 / 100)) (run_rec 4 0 5000 1500)"
  "eligible 5 (dbl (8 / 100)) (run_rec 2 0 5050 1600)"
  "\<not> eligible 5 (dbl (8 / 100)) (run_rec 3 0 10000 3600)"
  "\<not> eligible 10 (dbl (12 / 100)) (run_rec 4 0 5000 1500)"
  "\<not> eligible 10 (dbl (12 / 100)) (run_rec 2 0 5050 1600)"
  "eligible 10 (dbl (12 / 100)) (run_rec 3 0 10000 3600)"
  unfolding eligible_def
  by (simp_all add: run_rec_fields kmOf_examples timeOf_examples eval_dbl)

lemma acts8_fastest:
  "fastest 5 (dbl (8 / 100)) acts8 (run_rec 4 0 5000 1500)"
  "fastest 10 (dbl (12 / 100)) acts8 c \<Longrightarrow> c = run_rec 3 0 10000 3600"
  using acts8_eligible by (auto simp: fastest_def acts8_def timeOf_examples)

lemma within_5: "\<not> dbl (8 / 100) < \<bar>dbl (5 - 5)\<bar>"
  by (simp add: eval_dbl)

lemma formatTime_1500: "formatTimeMinTextFromSec 1500 = Some ''25:00''"
  by (simp add: formatTimeMinTextFromSec_def eval_str)

theorem best_5k_10k_witness:
  "fastest 5 (dbl (8 / 100)) acts8 (run_rec 4 0 5000 1500) \<and>
   parseBaselineTimeToSec (Option.bind (baseline5k baseline_prs) timeText) = Some 1651 \<and>
   timeOf (run_rec 4 0 5000 1500) < 1651 \<and>
   best5kValue baseline_prs acts8 = Some ''25:00'' \<and>
   best10kValue baseline_prs acts8 = Some ''59:01''"
proof -
  have t: "timeOf (run_rec 4 0 5000 1500) = 1500" "timeOf (run_rec 3 0 10000 3600) = 3600"
    by (simp_all add: timeOf_examples)
  have lt: "timeOf (run_rec 4 0 5000 1500) < of_int 1651"
    by (simp add: t)
  note inst = best_5k_10k[of acts8 5 "dbl (8 / 100)" baseline_prs cal0]
  from inst acts8_fastest(1) baseline_prs_times(1) lt
  have v5: "best5kValue baseline_prs acts8 = formatTimeMinTextFromSec (timeOf (run_rec 4 0 5000 1500))"
    by blast
  have k10: "of_int s \<le> timeOf c"
    if "fastest 10 (dbl (12 / 100)) acts8 c"
      and "parseBaselineTimeToSec (Option.bind (baseline10k baseline_prs) timeText) = Some s"
    for c s
  proof -
    from that(1) have "c = run_rec 3 0 10000 3600" by (rule acts8_fastest(2))
    moreover from that(2) have "s = 3541" unfolding baseline_prs_times(2) by simp
    ultimately show ?thesis by (simp add: t)
  qed
  then have "\<forall>c s. fastest 10 (dbl (12 / 100)) acts8 c \<and>
      parseBaselineTimeToSec (Option.bind (baseline10k baseline_prs) timeText) = Some s
      \<longrightarrow> of_int s \<le> timeOf c"
    by blast
  with inst have v10: "best10kValue baseline_prs acts8
      = Some (case Option.bind (baseline10k baseline_prs) timeText of Some t \<Rightarrow> t | None \<Rightarrow> [])"
    by blast
  have "best5kValue baseline_prs acts8 = Some ''25:00''"
    by (simp only: v5 t formatTime_1500)
  moreover have "best10kValue baseline_prs acts8 = Some ''59:01''"
    unfolding v10 baseline_prs_times by simp
  moreover have "timeOf (run_rec 4 0 5000 1500) < 1651"
    by (simp add: t)
  ultimately show ?thesis
    using acts8_fastest(1) baseline_prs_times(1) by blast
qed

text \<open>A run of 5 km with moving time 0 is within the tolerance and has the least moving
  time, yet the search passes it over for the run of 1500 s.\<close>

theorem best_5k_zero_time_counterexample:
  "isRun (run_rec 4 0 5000 0) \<and>
   \<bar>dbl (kmOf (run_rec 4 0 5000 0) - 5)\<bar> \<le> dbl (8 / 100) \<and>
   timeOf (run_rec 4 0 5000 0) < timeOf (run_rec 2 0 5000 1500) \<and>
   map_option cand (findBestForDistance [run_rec 4 0 5000 0, run_rec 2 0 5000 1500] 5 (dbl (8 / 100)))
     = Some (run_rec 2 0 5000 1500) \<and>
   best5kValue baseline_prs [run_rec 4 0 5000 0, run_rec 2 0 5000 1500] = Some ''25:00''"
proof -
  have f: "findBestForDistance [run_rec 4 0 5000 0, run_rec 2 0 5000 1500] 5 (dbl (8 / 100))
      = Some \<lparr>cand = run_rec 2 0 5000 1500, km = 5, timeSec = 1500,
               paceSecPerKm = perKm 1500 5\<rparr>"
    using within_5
    by (simp add: findBestForDistance_def best_step_def run_rec_fields kmOf_examples
        timeOf_examples)
  have c: "best5kChosen baseline_prs [run_rec 4 0 5000 0, run_rec 2 0 5000 1500]
      = Some \<lparr>cand = run_rec 2 0 5000 1500, km = 5, timeSec = 1500,
               paceSecPerKm = perKm 1500 5\<rparr>"
    unfolding best5kChosen_def f baseline_prs_times by (simp add: chosen_def)
  have v: "best5kValue baseline_prs [run_rec 4 0 5000 0, run_rec 2 0 5000 1500] = Some ''25:00''"
    unfolding best5kValue_def c by (simp add: prValue_def formatTime_1500)
  have m: "map_option cand (findBestForDistance [run_rec 4 0 5000 0, run_rec 2 0 5000 1500] 5 (dbl (8 / 100)))
     = Some (run_rec 2 0 5000 1500)"
    unfolding f by simp
  have "isRun (run_rec 4 0 5000 0)"
    "\<bar>dbl (kmOf (run_rec 4 0 5000 0) - 5)\<bar> \<le> dbl (8 / 100)"
    "timeOf (run_rec 4 0 5000 0) < timeOf (run_rec 2 0 5000 1500)"
    using within_5 by (simp_all add: run_rec_fields kmOf_examples timeOf_examples)
  with v m show ?thesis by blast
qed

subsection \<open>A run against the example service\<close>

lemma main_ok:
  assumes "stravaRefreshAccessToken e r = Inr (tok, athleteId)"
    and "fetchAthleteStats r athleteId = Inr st"
    and "fetchActivities r (afterEpoch e d) = Inr fresh"
  shows "detail_lookups (main cal e d r)
           = lookups (backfill (detail_response r) (freshIds fresh) (detailMax e)
                        (merge (activities_json d) fresh))"
    and "writes (main cal e d r) =
           [WriteActivities (records (backfill (detail_response r) (freshIds fresh) (detailMax e)
                        (merge (activities_json d) fresh))),
            WriteState (nextAfterEpoch (records (backfill (detail_response r) (freshIds fresh) (detailMax e)
                        (merge (activities_json d) fresh))) (afterEpochFromState d)),
            WriteStats (computeSportsStats cal (baseline_json d)
               (records (backfill (detail_response r) (freshIds fresh) (detailMax e)
                        (merge (activities_json d) fresh))) st)]"
  using assms by (simp_all add: main_def Let_def)

lemma refresh0: "stravaRefreshAccessToken (env0 mx) (remote0 feed det) = Inr (''token'', Some 7)"
  by (simp add: stravaRefreshAccessToken_def env0_def remote0_def mustGetEnv_def strOr_def)

lemma stats0: "fetchAthleteStats (remote0 feed det) (Some 7) = Inr None"
  by (simp add: fetchAthleteStats_def remote0_def)

lemma fetch0:
  "length (filter (started_after (if 0 < a then Some a else None)) feed) < per_page \<Longrightarrow>
   fetchActivities (remote0 feed det) a
     = Inr (filter (started_after (if 0 < a then Some a else None)) feed)"
  by (simp add: fetchActivities_def remote0_def maxPages_def numeral_eq_Suc)

lemmas eval_run = run_rec_def raw_run_def minimizeActivity_def blank_raw_def strOr_def truthy_def
  getTime_def merge_def set_fresh_def set_cached_def freshIds_def backfill_def no_detail_def
  started_after_def per_page_def

lemma succeeded0:
  "succeeded (env0 mx) disk0 (remote0 feed1 det)"
proof -
  have a: "afterEpoch (env0 mx) disk0 = 0"
    by (simp add: afterEpoch_def afterEpochFromState_def disk0_def env0_def)
  have "fetchActivities (remote0 feed1 det) (afterEpoch (env0 mx) disk0) = Inr feed1"
    unfolding a by (subst fetch0) (simp_all add: feed1_def eval_run)
  then show ?thesis by (simp add: succeeded_def refresh0 stats0)
qed

subsection \<open>Fatal errors\<close>

lemma main_succeeded:
  "succeeded e d r \<Longrightarrow>
     exit_status (main cal e d r) = 0 \<and> printed_error (main cal e d r) = None \<and>
     (\<exists>m st. writes (main cal e d r) =
        [WriteActivities m, WriteState (nextAfterEpoch m (afterEpochFromState d)),
         WriteStats (computeSportsStats cal (baseline_json d) m st)])"
  by (auto simp: succeeded_def main_def Let_def split: sum.splits prod.splits)

lemma main_not_succeeded:
  "\<not> succeeded e d r \<Longrightarrow> \<exists>err. main cal e d r = failed err"
  by (auto simp: succeeded_def main_def split: sum.splits prod.splits)

lemma failed_fields:
  "exit_status (failed err) = 1" "writes (failed err) = []" "printed_error (failed err) = Some err"
  "detail_lookups (failed err) = []"
  by (simp_all add: failed_def)

lemma token_fails_refresh: "token_fails r \<Longrightarrow> \<exists>err. stravaRefreshAccessToken e r = Inl err"
  by (auto simp: token_fails_def stravaRefreshAccessToken_def split: http.splits sum.splits)

lemma stats_fails_fetch:
  assumes "stats_fails r" and "stravaRefreshAccessToken e r = Inr (tok, athleteId)"
  shows "\<exists>err. fetchAthleteStats r athleteId = Inl err"
proof -
  from assms(2) obtain json where j: "token_response r = HttpOk json" "athleteId = athlete_id json"
    by (auto simp: stravaRefreshAccessToken_def split: http.splits sum.splits option.splits)
  with assms(1) show ?thesis
    by (auto simp: stats_fails_def fetchAthleteStats_def split: option.splits http.splits)
qed

lemma fetchPages_fails:
  assumes "k < left" and "\<forall>j<k. page_full (get (page + j))" and "page_bad (get (page + k))"
  shows "\<exists>err. fetchPages get left page out = Inl err"
  using assms
proof (induction left arbitrary: k page out)
  case 0
  then show ?case by simp
next
  case (Suc left)
  show ?case
  proof (cases k)
    case 0
    with Suc.prems(3) show ?thesis
      by (auto simp: page_bad_def split: http.splits page_body.splits)
  next
    case (Suc k')
    with Suc.prems(2) have full: "page_full (get page)" by (metis add.right_neutral zero_less_Suc)
    then obtain arr where arr: "get page = HttpOk (Arr arr)" "per_page \<le> length arr"
      by (auto simp: page_full_def split: http.splits page_body.splits)
    have "k' < left" using Suc Suc.prems(1) by simp
    moreover have "\<forall>j<k'. page_full (get (Suc page + j))"
      using Suc.prems(2) Suc by (metis Suc_less_eq add_Suc_shift)
    moreover have "page_bad (get (Suc page + k'))"
      using Suc.prems(3) Suc by simp
    ultimately obtain err where "fetchPages get left (Suc page) (out @ arr) = Inl err"
      using Suc.IH by blast
    with arr show ?thesis by simp
  qed
qed

lemma page_fails_fetch: "page_fails e d r \<Longrightarrow> \<exists>err. fetchActivities r (afterEpoch e d) = Inl err"
proof -
  assume "page_fails e d r"
  then obtain k where k: "k < maxPages" "\<forall>j<k. page_full (pages_of e d r (Suc j))"
      "page_bad (pages_of e d r (Suc k))"
    by (auto simp: page_fails_def list_ex_iff list_all_iff)
  then have "\<exists>err. fetchPages (pages_of e d r) maxPages 1 [] = Inl err"
    by (intro fetchPages_fails[of k]) auto
  then show ?thesis by (simp add: fetchActivities_def pages_of_def)
qed

lemma fatal_not_succeeded:
  "token_fails r \<or> stats_fails r \<or> page_fails e d r \<Longrightarrow> \<not> succeeded e d r"
proof (elim disjE)
  assume "token_fails r"
  from token_fails_refresh[OF this, of e] show ?thesis by (auto simp: succeeded_def)
next
  assume s: "stats_fails r"
  show ?thesis
  proof (cases "stravaRefreshAccessToken e r")
    case (Inl err)
    then show ?thesis by (simp add: succeeded_def)
  next
    case (Inr ta)
    with stats_fails_fetch[OF s, of e "fst ta" "snd ta"] show ?thesis
      by (auto simp: succeeded_def)
  qed
next
  assume "page_fails e d r"
  from page_fails_fetch[OF this] show ?thesis
    by (auto simp: succeeded_def split: sum.splits)
qed

text \<open>
  Claim C9. When the credential exchange fails, or the lifetime totals request fails, or
  an activity page that the run reaches fails or is not a sequence, the run writes nothing,
  prints an error and exits with status 1. A run whose three fetches succeed exits with
  status 0 after writing the cache, the sync state and the statistics, in that order; any
  other run exits with status 1 and writes nothing.
\<close>

theorem fatal_errors_write_nothing:
  "(token_fails r \<or> stats_fails r \<or> page_fails e d r \<longrightarrow>
      exit_status (main cal e d r) = 1 \<and> writes (main cal e d r) = [] \<and>
      printed_error (main cal e d r) \<noteq> None) \<and>
   (succeeded e d r \<longrightarrow>
      exit_status (main cal e d r) = 0 \<and> printed_error (main cal e d r) = None \<and>
      (\<exists>m st. writes (main cal e d r) =
         [WriteActivities m, WriteState (nextAfterEpoch m (afterEpochFromState d)),
          WriteStats (computeSportsStats cal (baseline_json d) m st)])) \<and>
   (\<not> succeeded e d r \<longrightarrow>
      exit_status (main cal e d r) = 1 \<and> writes (main cal e d r) = [] \<and>
      printed_error (main cal e d r) \<noteq> None)"
proof (intro conjI impI)
  assume "token_fails r \<or> stats_fails r \<or> page_fails e d r"
  then have "\<not> succeeded e d r" by (rule fatal_not_succeeded)
  from main_not_succeeded[OF this, of cal] obtain err where "main cal e d r = failed err" by blast
  then show "exit_status (main cal e d r) = 1" "writes (main cal e d r) = []"
    "printed_error (main cal e d r) \<noteq> None"
    by (simp_all add: failed_fields)
next
  assume s: "succeeded e d r"
  from main_succeeded[OF s, of cal]
  show "exit_status (main cal e d r) = 0" "printed_error (main cal e d r) = None"
    "\<exists>m st. writes (main cal e d r) =
         [WriteActivities m, WriteState (nextAfterEpoch m (afterEpochFromState d)),
          WriteStats (computeSportsStats cal (baseline_json d) m st)]"
    by blast+
next
  assume "\<not> succeeded e d r"
  from main_not_succeeded[OF this, of cal] obtain err where "main cal e d r = failed err" by blast
  then show "exit_status (main cal e d r) = 1" "writes (main cal e d r) = []"
    "printed_error (main cal e d r) \<noteq> None"
    by (simp_all add: failed_fields)
qed

theorem fatal_errors_write_nothing_witness:
  "token_fails remote_unauthorized \<and>
   exit_status (main cal0 (env0 None) disk0 remote_unauthorized) = 1 \<and>
   writes (main cal0 (env0 None) disk0 remote_unauthorized) = [] \<and>
   stats_fails remote_stats_down \<and>
   exit_status (main cal0 (env0 None) disk0 remote_stats_down) = 1 \<and>
   writes (main cal0 (env0 None) disk0 remote_stats_down) = [] \<and>
   page_fails (env0 None) disk0 remote_not_array \<and>
   exit_status (main cal0 (env0 None) disk0 remote_not_array) = 1 \<and>
   writes (main cal0 (env0 None) disk0 remote_not_array) = [] \<and>
   succeeded (env0 None) disk0 (remote0 feed1 no_detail) \<and>
   exit_status (main cal0 (env0 None) disk0 (remote0 feed1 no_detail)) = 0"
proof -
  have t: "token_fails remote_unauthorized"
    by (simp add: token_fails_def remote_unauthorized_def)
  have st: "stats_fails remote_stats_down"
    by (simp add: stats_fails_def remote_stats_down_def remote0_def)
  have "page_bad (pages_of (env0 None) disk0 remote_not_array (Suc 0))"
    by (simp add: page_bad_def pages_of_def remote_not_array_def)
  then have p: "page_fails (env0 None) disk0 remote_not_array"
    unfolding page_fails_def list_ex_iff by (intro bexI[of _ 0]) (simp_all add: maxPages_def)
  from fatal_errors_write_nothing[of remote_unauthorized "env0 None" disk0 cal0] t
  have "exit_status (main cal0 (env0 None) disk0 remote_unauthorized) = 1"
    and "writes (main cal0 (env0 None) disk0 remote_unauthorized) = []"
    by blast+
  moreover from fatal_errors_write_nothing[of remote_stats_down "env0 None" disk0 cal0] st
  have "exit_status (main cal0 (env0 None) disk0 remote_stats_down) = 1"
    and "writes (main cal0 (env0 None) disk0 remote_stats_down) = []"
    by blast+
  moreover from fatal_errors_write_nothing[of remote_not_array "env0 None" disk0 cal0] p
  have "exit_status (main cal0 (env0 None) disk0 remote_not_array) = 1"
    and "writes (main cal0 (env0 None) disk0 remote_not_array) = []"
    by blast+
  moreover from fatal_errors_write_nothing[of "remote0 feed1 no_detail" "env0 None" disk0 cal0]
    succeeded0[of None no_detail]
  have "exit_status (main cal0 (env0 None) disk0 (remote0 feed1 no_detail)) = 0"
    by blast
  ultimately show ?thesis using t st p succeeded0[of None no_detail] by simp
qed

subsection \<open>A token answer without an athlete\<close>

lemma fetchAthleteStats_skipped: "\<not> truthy athleteId \<Longrightarrow> fetchAthleteStats r athleteId = Inr None"
  by (auto simp: fetchAthleteStats_def truthy_def split: option.splits)

lemma refresh_stats_irrelevant:
  "stravaRefreshAccessToken e (r\<lparr>stats_response := sr\<rparr>) = stravaRefreshAccessToken e r"
  by (simp add: stravaRefreshAccessToken_def split: sum.splits)

lemma fetchActivities_stats_irrelevant:
  "fetchActivities (r\<lparr>stats_response := sr\<rparr>) a = fetchActivities r a"
  by (simp add: fetchActivities_def)

lemma totals_without_stats:
  "runDistanceKm b acts None = baselineDistanceKm b + sum_pick (filter isRun acts) distance_m / 1000"
  "runTimeH b acts None = baselineTimeH b + sum_pick (filter isRun acts) moving_time_s / 3600"
  "rideDistanceKm acts None = sum_pick (filter isRide acts) distance_m / 1000"
  "rideTimeH acts None = sum_pick (filter isRide acts) moving_time_s / 3600"
  "rideCount acts None = of_nat (length (filter isRide acts))"
  by (simp_all add: runDistanceKm_def runTimeH_def rideDistanceKm_def rideTimeH_def rideCount_def
      statsAllRun_def statsAllRide_def)

text \<open>
  Claim C10. When the token answer has no truthy athlete identifier, the lifetime totals
  are absent without any error and whatever the totals endpoint would answer plays no
  part in the run; if the activity fetch succeeds the run exits with status 0 and the
  statistics are computed without lifetime totals. Without them the running totals are the
  baseline plus the local sums, and the cycling totals are the local sums and count.
\<close>

theorem no_athlete_id_falls_back:
  assumes "stravaRefreshAccessToken e r = Inr (tok, athleteId)" and "\<not> truthy athleteId"
  shows "fetchAthleteStats r athleteId = Inr None \<and>
         main cal e d (r\<lparr>stats_response := sr\<rparr>) = main cal e d r \<and>
         (\<forall>fresh. fetchActivities r (afterEpoch e d) = Inr fresh \<longrightarrow>
            exit_status (main cal e d r) = 0 \<and>
            (\<exists>m. writes (main cal e d r) =
               [WriteActivities m, WriteState (nextAfterEpoch m (afterEpochFromState d)),
                WriteStats (computeSportsStats cal (baseline_json d) m None)])) \<and>
         runDistanceKm b acts None
           = baselineDistanceKm b + sum_pick (filter isRun acts) distance_m / 1000 \<and>
         runTimeH b acts None
           = baselineTimeH b + sum_pick (filter isRun acts) moving_time_s / 3600 \<and>
         rideDistanceKm acts None = sum_pick (filter isRide acts) distance_m / 1000 \<and>
         rideTimeH acts None = sum_pick (filter isRide acts) moving_time_s / 3600 \<and>
         rideCount acts None = of_nat (length (filter isRide acts))"
proof -
  have sk: "fetchAthleteStats r' athleteId = Inr None" for r'
    using assms(2) by (rule fetchAthleteStats_skipped)
  have "main cal e d (r\<lparr>stats_response := sr\<rparr>) = main cal e d r"
    using assms(1) sk
    by (simp add: main_def refresh_stats_irrelevant fetchActivities_stats_irrelevant
        split: sum.splits)
  moreover have "exit_status (main cal e d r) = 0 \<and>
            (\<exists>m. writes (main cal e d r) =
               [WriteActivities m, WriteState (nextAfterEpoch m (afterEpochFromState d)),
                WriteStats (computeSportsStats cal (baseline_json d) m None)])"
    if "fetchActivities r (afterEpoch e d) = Inr fresh" for fresh
    using assms(1) sk that by (simp add: main_def Let_def)
  ultimately show ?thesis using sk totals_without_stats by blast
qed

theorem no_athlete_id_falls_back_witness:
  "stravaRefreshAccessToken (env0 None) remote_no_athlete = Inr (''token'', None) \<and>
   \<not> truthy None \<and>
   fetchAthleteStats remote_no_athlete None = Inr None \<and>
   fetchActivities remote_no_athlete (afterEpoch (env0 None) disk0) = Inr feed1 \<and>
   exit_status (main cal0 (env0 None) disk0 remote_no_athlete) = 0 \<and>
   rideCount [run_rec 4 0 10000 3600] None = 0 \<and>
   runDistanceKm (baseline500 pace6) [run_rec 4 0 10000 3600] None
     = baselineDistanceKm (baseline500 pace6) + 10"
proof -
  have r: "stravaRefreshAccessToken (env0 None) remote_no_athlete = Inr (''token'', None)"
    by (simp add: stravaRefreshAccessToken_def env0_def remote_no_athlete_def remote0_def
        mustGetEnv_def strOr_def)
  have n: "\<not> truthy None" by (simp add: truthy_def)
  have a: "afterEpoch (env0 None) disk0 = 0"
    by (simp add: afterEpoch_def afterEpochFromState_def disk0_def env0_def)
  have f: "fetchActivities remote_no_athlete (afterEpoch (env0 None) disk0) = Inr feed1"
    unfolding a
    by (simp add: fetchActivities_def remote_no_athlete_def remote0_def maxPages_def
        numeral_eq_Suc feed1_def eval_run)
  have rc: "of_nat (length (filter isRide [run_rec 4 0 10000 3600])) = (0::rat)"
    by (simp add: run_rec_fields)
  have sd: "sum_pick (filter isRun [run_rec 4 0 10000 3600]) distance_m / 1000 = 10"
    by (simp add: run_rec_fields sum_pick_def numOr0_def)
  from no_athlete_id_falls_back[OF r n, of cal0 disk0 "stats_response remote_no_athlete"
      "baseline500 pace6" "[run_rec 4 0 10000 3600]"] f
  have "fetchAthleteStats remote_no_athlete None = Inr None"
    and "exit_status (main cal0 (env0 None) disk0 remote_no_athlete) = 0"
    and "rideCount [run_rec 4 0 10000 3600] None
           = of_nat (length (filter isRide [run_rec 4 0 10000 3600]))"
    and "runDistanceKm (baseline500 pace6) [run_rec 4 0 10000 3600] None
           = baselineDistanceKm (baseline500 pace6)
             + sum_pick (filter isRun [run_rec 4 0 10000 3600]) distance_m / 1000"
    by blast+
  then show ?thesis
    using r n f by (simp only: rc sd simp_thms)
qed

subsection \<open>The detail backfill\<close>

lemma loop_fetched_ge: "n \<le> detailFetched (backfill_loop detail ids mx n xs)"
  by (induction detail ids mx n xs rule: backfill_loop.induct)
     (auto simp: Let_def split: option.splits dest: Suc_leD)

lemma loop_fetched_le:
  "int n \<le> mx \<Longrightarrow> int (detailFetched (backfill_loop detail ids mx n xs)) \<le> mx"
  by (induction detail ids mx n xs rule: backfill_loop.induct)
     (auto simp: Let_def split: option.splits)

lemma backfill_fetched_le: "int (detailFetched (backfill detail ids mx xs)) \<le> max 0 mx"
  using loop_fetched_le[of 0 mx detail ids xs] by (simp add: backfill_def)

lemma backfill_disabled:
  "mx \<le> 0 \<Longrightarrow> lookups (backfill detail ids mx xs) = [] \<and> records (backfill detail ids mx xs) = xs"
  by (simp add: backfill_def)

lemma loop_successes:
  "detailFetched (backfill_loop detail ids mx n xs)
     = n + length (filter (\<lambda>i. detail i \<noteq> None) (lookups (backfill_loop detail ids mx n xs)))"
  by (induction detail ids mx n xs rule: backfill_loop.induct)
     (auto simp: Let_def split: option.splits)

lemma loop_length: "length (records (backfill_loop detail ids mx n xs)) = length xs"
  by (induction detail ids mx n xs rule: backfill_loop.induct)
     (auto simp: Let_def split: option.splits)

lemma loop_keeps_attempted:
  "list_all2 (\<lambda>a a'. a' = a \<or> detail_attempted a' \<and> \<not> detail_attempted a)
     xs (records (backfill_loop detail ids mx n xs))"
  by (induction detail ids mx n xs rule: backfill_loop.induct)
     (auto simp: Let_def list_all2_same split: option.splits)

lemma first_run:
  "detail_lookups (main cal0 (env0 None) disk0 (remote0 feed1 no_detail)) = [Some 1]"
  "persist (writes (main cal0 (env0 None) disk0 (remote0 feed1 no_detail))) disk0
     = disk0\<lparr> activities_json := [(run_rec 1 1700000000000 5000 1500)\<lparr>detail_attempted := True\<rparr>],
              lastSyncEpoch := Some 1699999940 \<rparr>"
proof -
  have a: "afterEpoch (env0 None) disk0 = 0"
    by (simp add: afterEpoch_def afterEpochFromState_def disk0_def env0_def)
  have f: "fetchActivities (remote0 feed1 no_detail) (afterEpoch (env0 None) disk0) = Inr feed1"
    unfolding a by (subst fetch0) (simp_all add: feed1_def eval_run)
  have b: "backfill no_detail (freshIds feed1) (detailMax (env0 None)) (merge (activities_json disk0) feed1)
      = \<lparr>records = [(run_rec 1 1700000000000 5000 1500)\<lparr>detail_attempted := True\<rparr>],
         detailFetched = 0, lookups = [Some 1]\<rparr>"
    by (simp add: feed1_def disk0_def detailMax_def env0_def eval_run)
  show "detail_lookups (main cal0 (env0 None) disk0 (remote0 feed1 no_detail)) = [Some 1]"
    using main_ok(1)[OF refresh0 stats0 f, of cal0] b by (simp add: remote0_def)
  show "persist (writes (main cal0 (env0 None) disk0 (remote0 feed1 no_detail))) disk0
     = disk0\<lparr> activities_json := [(run_rec 1 1700000000000 5000 1500)\<lparr>detail_attempted := True\<rparr>],
              lastSyncEpoch := Some 1699999940 \<rparr>"
    using main_ok(2)[OF refresh0 stats0 f, of cal0] b
    by (simp add: remote0_def nextAfterEpoch_def newestEpoch_def afterEpochFromState_def
        disk0_def eval_run)
qed

lemma disk1_eq:
  "disk1 = disk0\<lparr> activities_json := [(run_rec 1 1700000000000 5000 1500)\<lparr>detail_attempted := True\<rparr>],
              lastSyncEpoch := Some 1699999940 \<rparr>"
  unfolding disk1_def by (rule first_run(2))

lemma second_run:
  "map detail_attempted (merge (activities_json disk1) feed1) = [False]"
  "detail_lookups (main cal0 (env0 None) disk1 (remote0 feed1 no_detail)) = [Some 1]"
proof -
  have a: "afterEpoch (env0 None) disk1 = 1699999940"
    by (simp add: disk1_eq afterEpoch_def afterEpochFromState_def disk0_def)
  have f: "fetchActivities (remote0 feed1 no_detail) (afterEpoch (env0 None) disk1) = Inr feed1"
    unfolding a by (subst fetch0) (simp_all add: feed1_def eval_run)
  show "map detail_attempted (merge (activities_json disk1) feed1) = [False]"
    by (simp add: disk1_eq disk0_def feed1_def eval_run)
  have b: "lookups (backfill no_detail (freshIds feed1) (detailMax (env0 None))
              (merge (activities_json disk1) feed1)) = [Some 1]"
    by (simp add: disk1_eq feed1_def disk0_def detailMax_def env0_def eval_run)
  show "detail_lookups (main cal0 (env0 None) disk1 (remote0 feed1 no_detail)) = [Some 1]"
    using main_ok(1)[OF refresh0 stats0 f, of cal0] b by (simp add: remote0_def)
qed

text \<open>
  Claim C2, at a failing input. The first run fetches one run without energy data; its
  detail request fails, the record is written with the flag set, and the sync point is
  60 s before its start. The second run reads that disk, is served the same activity
  again, and the merge replaces the cached record by the freshly minimised one, whose
  flag is unset: a second detail request goes out for the same identifier.
\<close>

theorem second_run_repeats_detail_lookup:
  "detail_lookups (main cal0 (env0 None) disk0 (remote0 feed1 no_detail)) = [Some 1] \<and>
   map detail_attempted (activities_json disk1) = [True] \<and>
   lastSyncEpoch disk1 = Some 1699999940 \<and>
   map detail_attempted (merge (activities_json disk1) feed1) = [False] \<and>
   detail_lookups (main cal0 (env0 None) disk1 (remote0 feed1 no_detail)) = [Some 1]"
  using first_run(1) second_run by (simp add: disk1_eq)

lemma budget_runs:
  "detail_lookups (main cal0 (env0 (Some 1)) disk0 (remote0 feed3 no_detail)) = [Some 3, Some 2, Some 1]"
  "detail_lookups (main cal0 (env0 (Some 1)) disk0 (remote0 feed3 with_calories)) = [Some 3]"
  "detail_lookups (main cal0 (env0 (Some 0)) disk0 (remote0 feed3 no_detail)) = []"
proof -
  have a: "afterEpoch (env0 mx) disk0 = 0" for mx
    by (simp add: afterEpoch_def afterEpochFromState_def disk0_def env0_def)
  have f: "fetchActivities (remote0 feed3 det) (afterEpoch (env0 mx) disk0) = Inr feed3" for det mx
    unfolding a by (subst fetch0) (simp_all add: feed3_def eval_run)
  have m: "merge (activities_json disk0) feed3
      = [run_rec 3 1700200000000 5000 1500, run_rec 2 1700100000000 5000 1500,
         run_rec 1 1700000000000 5000 1500]"
    by (simp add: feed3_def disk0_def eval_run)
  have i: "freshIds feed3 = [Some 1, Some 2, Some 3]"
    by (simp add: feed3_def eval_run)
  have b1: "lookups (backfill no_detail (freshIds feed3) (detailMax (env0 (Some 1)))
              (merge (activities_json disk0) feed3)) = [Some 3, Some 2, Some 1]"
    unfolding m i by (simp add: detailMax_def env0_def eval_run)
  have b2: "lookups (backfill with_calories (freshIds feed3) (detailMax (env0 (Some 1)))
              (merge (activities_json disk0) feed3)) = [Some 3]"
    unfolding m i by (simp add: detailMax_def env0_def with_calories_def eval_run)
  have b3: "lookups (backfill no_detail (freshIds feed3) (detailMax (env0 (Some 0)))
              (merge (activities_json disk0) feed3)) = []"
    by (simp add: detailMax_def env0_def backfill_def)
  show "detail_lookups (main cal0 (env0 (Some 1)) disk0 (remote0 feed3 no_detail)) = [Some 3, Some 2, Some 1]"
    using main_ok(1)[OF refresh0 stats0 f, of cal0 "Some 1" no_detail] b1 by (simp add: remote0_def)
  show "detail_lookups (main cal0 (env0 (Some 1)) disk0 (remote0 feed3 with_calories)) = [Some 3]"
    using main_ok(1)[OF refresh0 stats0 f, of cal0 "Some 1" with_calories] b2 by (simp add: remote0_def)
  show "detail_lookups (main cal0 (env0 (Some 0)) disk0 (remote0 feed3 no_detail)) = []"
    using main_ok(1)[OF refresh0 stats0 f, of cal0 "Some 0" no_detail] b3 by (simp add: remote0_def)
qed

text \<open>
  Claim C3, at a failing input. With a maximum of 1 and three fetched runs without energy
  data, three detail requests go out when each of them fails: only a request that
  succeeds counts against the maximum. When the requests succeed, one goes out; with a
  maximum of 0, none.
\<close>

theorem failed_lookups_exceed_budget:
  "detailMax (env0 (Some 1)) = 1 \<and>
   detail_lookups (main cal0 (env0 (Some 1)) disk0 (remote0 feed3 no_detail))
     = [Some 3, Some 2, Some 1] \<and>
   detail_lookups (main cal0 (env0 (Some 1)) disk0 (remote0 feed3 with_calories)) = [Some 3] \<and>
   detail_lookups (main cal0 (env0 (Some 0)) disk0 (remote0 feed3 no_detail)) = []"
  using budget_runs by (simp add: detailMax_def env0_def)

end
